theory Spec2Isabelle
  imports Complex_Main
begin

section \<open>Python values, exceptions and library functions\<close>

text \<open>
  The program is two Python scripts: \<^verbatim>\<open>FrequencyResponseCapture.py\<close> drives an
  oscilloscope through a frequency sweep and writes a CSV file, and
  \<^verbatim>\<open>interactivePlot.py\<close> reads such a file back and marks the -3 dB point.

  Python floats are modelled as \<^typ>\<open>real\<close>: comparisons, sums and the logarithm are the
  exact ones, so rounding, infinities and NaN are outside the model (in particular the
  running sum of the sweep, \<^verbatim>\<open>curr_freq += step\<close>, is exact here). The number of
  passes of the sweep loop depends on the rounding of that sum, so the sweep is given a
  second time with each of its float operations rounded to binary64. Every exception the
  code can raise is a value of \<open>exc\<close>, and a computation that can raise returns
  \<open>exc + 'a\<close>. \<^verbatim>\<open>sys.exit(1)\<close> raises \<^verbatim>\<open>SystemExit\<close>; the model keeps the exit
  code and the lines printed just before it.
\<close>

datatype exc =
    SystemExit int "string list"
  | ValueError
  | ZeroDivisionError
  | IndexError

text \<open>
  The library functions the scripts call on floats and strings are not part of the
  sources, so they are parameters: \<open>to_float\<close> is \<^verbatim>\<open>float(s)\<close> (\<open>None\<close> where Python
  raises \<^verbatim>\<open>ValueError\<close>), \<open>str_float\<close> is the plain format \<^verbatim>\<open>{x}\<close> of a float, and
  \<open>fmt3f\<close>, \<open>fmt2f\<close> and \<open>fmt0f\<close> are the formats \<^verbatim>\<open>{x:.3f}\<close>, \<^verbatim>\<open>{x:5.2f}\<close> and
  \<^verbatim>\<open>{x:.0f}\<close>.
\<close>

record pylib =
  to_float :: "string \<Rightarrow> real option"
  str_float :: "real \<Rightarrow> string"
  fmt3f :: "real \<Rightarrow> string"
  fmt2f :: "real \<Rightarrow> string"
  fmt0f :: "real \<Rightarrow> string"

definition newline :: char where
  "newline = CHR 0x0A"

subsection \<open>String operations\<close>

text \<open>\<^verbatim>\<open>s.find(sep)\<close>: the index of the first occurrence of \<open>sep\<close> in \<open>s\<close>.\<close>

fun find_py :: "string \<Rightarrow> string \<Rightarrow> nat option" where
  "find_py sep [] = (if sep = [] then Some 0 else None)"
| "find_py sep (c # cs) =
     (if take (length sep) (c # cs) = sep then Some 0
      else map_option Suc (find_py sep cs))"

lemma find_py_bound: "find_py sep s = Some i \<Longrightarrow> i + length sep \<le> length s"
proof (induction s arbitrary: i)
  case Nil
  then show ?case by (simp split: if_splits)
next
  case (Cons c cs)
  show ?case
  proof (cases "take (length sep) (c # cs) = sep")
    case True
    then have "length (take (length sep) (c # cs)) = length sep"
      by simp
    then have "length sep \<le> length (c # cs)"
      by simp
    with True Cons.prems show ?thesis by simp
  next
    case False
    with Cons.prems obtain j where "find_py sep cs = Some j" "i = Suc j"
      by auto
    with Cons.IH show ?thesis by simp
  qed
qed

text \<open>
  \<^verbatim>\<open>s.split(sep)\<close> for a non-empty separator: cut at each occurrence, left to right.
  (Python raises on an empty separator; the scripts only split at \<^verbatim>\<open>", "\<close>.)
\<close>

function split_py :: "string \<Rightarrow> string \<Rightarrow> string list" where
  "split_py sep s =
     (if sep = [] then [s]
      else (case find_py sep s of
              None \<Rightarrow> [s]
            | Some i \<Rightarrow> take i s # split_py sep (drop (i + length sep) s)))"
  by pat_completeness auto
termination
proof (relation "measure (\<lambda>(sep, s). length s)")
  show "wf (measure (\<lambda>(sep, s). length s))" by simp
next
  fix sep s :: string and i :: nat
  assume "sep \<noteq> []" and "find_py sep s = Some i"
  then have "i + length sep \<le> length s" and "0 < length sep"
    using find_py_bound [of sep s i] by simp_all
  then have "length s - (i + length sep) < length s"
    by arith
  then show "((sep, drop (i + length sep) s), (sep, s)) \<in> measure (\<lambda>(sep, s). length s)"
    by simp
qed

declare split_py.simps [simp del]

text \<open>\<^verbatim>\<open>s.strip("\n")\<close>: drop the newlines at both ends.\<close>

definition strip_newlines :: "string \<Rightarrow> string" where
  "strip_newlines s =
     rev (dropWhile (\<lambda>c. c = newline) (rev (dropWhile (\<lambda>c. c = newline) s)))"

text \<open>
  \<^verbatim>\<open>for lin in fp\<close>: the lines of a text file, each with its terminating newline (the
  last one may have none).
\<close>

fun file_lines :: "string \<Rightarrow> string list" where
  "file_lines [] = []"
| "file_lines (c # cs) =
     (if c = newline then [c] # file_lines cs
      else (case file_lines cs of
              [] \<Rightarrow> [[c]]
            | l # ls \<Rightarrow> (c # l) # ls))"

subsection \<open>Builtins on lists\<close>

text \<open>
  \<^verbatim>\<open>max(xs)\<close> and \<^verbatim>\<open>min(xs, key=k)\<close> scan from the left and replace the candidate only
  by a strictly better element, so the first of several equal candidates is returned;
  both raise \<^verbatim>\<open>ValueError\<close> on an empty list. \<^verbatim>\<open>xs.index(v)\<close> is the first position
  of \<open>v\<close>, and \<^verbatim>\<open>ValueError\<close> when there is none; \<^verbatim>\<open>xs[i]\<close> raises \<^verbatim>\<open>IndexError\<close>
  out of range.
\<close>

definition max_py :: "real list \<Rightarrow> exc + real" where
  "max_py xs =
     (case xs of
        [] \<Rightarrow> Inl ValueError
      | x # rest \<Rightarrow> Inr (foldl (\<lambda>m y. if y > m then y else m) x rest))"

definition min_key_py :: "('a \<Rightarrow> real) \<Rightarrow> 'a list \<Rightarrow> exc + 'a" where
  "min_key_py k xs =
     (case xs of
        [] \<Rightarrow> Inl ValueError
      | x # rest \<Rightarrow> Inr (foldl (\<lambda>m y. if k y < k m then y else m) x rest))"

fun index_py :: "'a list \<Rightarrow> 'a \<Rightarrow> exc + nat" where
  "index_py [] v = Inl ValueError"
| "index_py (x # xs) v =
     (if x = v then Inr 0
      else (case index_py xs v of Inl e \<Rightarrow> Inl e | Inr i \<Rightarrow> Inr (Suc i)))"

definition getitem :: "'a list \<Rightarrow> nat \<Rightarrow> exc + 'a" where
  "getitem xs i = (if i < length xs then Inr (xs ! i) else Inl IndexError)"

section \<open>Reading a data file and locating the cutoff (interactivePlot.py)\<close>

text \<open>
  One line of the data file, as the body of the \<^verbatim>\<open>try\<close> in \<^verbatim>\<open>plot_bode\<close> reads it:
  the line is stripped and split at \<^verbatim>\<open>", "\<close>, the six pieces are converted by
  \<^verbatim>\<open>float\<close> and unpacked. A wrong number of pieces or a piece that is no float raises
  inside the \<^verbatim>\<open>try\<close>, and the bare \<^verbatim>\<open>except\<close> skips the line: that is \<open>None\<close> here.
  The values kept are the first (frequency), the fifth (phase) and the sixth (gain).
\<close>

definition parse_line :: "pylib \<Rightarrow> string \<Rightarrow> (real \<times> real \<times> real) option" where
  "parse_line py lin =
     (case map (to_float py) (split_py '', '' (strip_newlines lin)) of
        [Some f1, Some a1, Some f2, Some a2, Some pd, Some gain] \<Rightarrow> Some (f1, pd, gain)
      | _ \<Rightarrow> None)"

text \<open>The parsing loop: \<open>freq_arr\<close>, \<open>phase_arr\<close> and \<open>gain_arr\<close>, in file order.\<close>

fun parse_lines :: "pylib \<Rightarrow> string list \<Rightarrow> real list \<times> real list \<times> real list" where
  "parse_lines py [] = ([], [], [])"
| "parse_lines py (lin # rest) =
     (case parse_lines py rest of
        (freq_arr, phase_arr, gain_arr) \<Rightarrow>
          (case parse_line py lin of
             None \<Rightarrow> (freq_arr, phase_arr, gain_arr)
           | Some (f1, pd, gain) \<Rightarrow> (f1 # freq_arr, pd # phase_arr, gain # gain_arr)))"

text \<open>
  The cutoff search of \<^verbatim>\<open>plot_bode\<close>:
  \<^verbatim>\<open>gain_arr.index(min(gain_arr, key=lambda x: abs(x - (max(gain_arr)-3))))\<close>.
  The key calls \<^verbatim>\<open>max(gain_arr)\<close> at every element; the model computes it once, which
  differs only on the empty list, where \<^verbatim>\<open>min\<close> and \<^verbatim>\<open>max\<close> raise the same
  \<^verbatim>\<open>ValueError\<close>.
\<close>

definition find_cutoff :: "real list \<Rightarrow> exc + nat" where
  "find_cutoff gain_arr =
     (case max_py gain_arr of
        Inl e \<Rightarrow> Inl e
      | Inr mx \<Rightarrow>
          (case min_key_py (\<lambda>x. \<bar>x - (mx - 3)\<bar>) gain_arr of
             Inl e \<Rightarrow> Inl e
           | Inr v \<Rightarrow> index_py gain_arr v))"

text \<open>
  What \<^verbatim>\<open>plot_bode\<close> hands to the plotting library: the three arrays, the index of the
  cutoff, and the heights of the two horizontal "-3dB" lines (\<^verbatim>\<open>gain_arr[cutoff_index]\<close>
  on the gain plot, \<^verbatim>\<open>phase_arr[cutoff_index]\<close> on the phase plot).
\<close>

record bode =
  freq_arr :: "real list"
  phase_arr :: "real list"
  gain_arr :: "real list"
  cutoff_index :: nat
  gain_hline :: real
  phase_hline :: real

text \<open>
  \<^verbatim>\<open>plot_bode\<close> of interactivePlot.py, in two parts: the parsing loop over the lines of
  the data file, and \<open>bode_figure\<close>, the rest of the function on the three arrays.
  Before the cutoff search the layout reads \<^verbatim>\<open>freq_arr[0]\<close> and \<^verbatim>\<open>freq_arr[-1]\<close>,
  which raise \<^verbatim>\<open>IndexError\<close> when no line of the file was accepted. Drawing is left to
  the library.
\<close>

definition bode_figure :: "real list \<times> real list \<times> real list \<Rightarrow> exc + bode" where
  "bode_figure arrays =
     (case arrays of
        (fs, ps, gs) \<Rightarrow>
          if fs = [] then Inl IndexError
          else (case find_cutoff gs of
                  Inl e \<Rightarrow> Inl e
                | Inr i \<Rightarrow>
                    (case getitem gs i of
                       Inl e \<Rightarrow> Inl e
                     | Inr g \<Rightarrow>
                         (case getitem ps i of
                            Inl e \<Rightarrow> Inl e
                          | Inr p \<Rightarrow>
                              Inr \<lparr>freq_arr = fs, phase_arr = ps, gain_arr = gs,
                                   cutoff_index = i, gain_hline = g, phase_hline = p\<rparr>))))"

definition plot_bode :: "pylib \<Rightarrow> string \<Rightarrow> exc + bode" where
  "plot_bode py contents = bode_figure (parse_lines py (file_lines contents))"

section \<open>The instrument session (FrequencyResponseCapture.py)\<close>

text \<open>
  \<^verbatim>\<open>myScope\<close> is a VISA COM object, the one session with the oscilloscope. Its two
  methods are parameters of the model: \<open>WriteString\<close> sends a line and \<open>ReadString\<close>
  reads the instrument's answer, both on a state \<open>'w\<close> of the instrument and the
  session. A computation on the session takes the state and returns an exception or a
  result with the new state; \<open>and_then\<close> runs two in sequence and stops at the first
  exception, as Python does.
\<close>

record 'w visa =
  WriteString :: "string \<Rightarrow> 'w \<Rightarrow> 'w"
  ReadString :: "'w \<Rightarrow> string \<times> 'w"

definition and_then ::
  "('w \<Rightarrow> exc + 'a \<times> 'w) \<Rightarrow> ('a \<Rightarrow> 'w \<Rightarrow> exc + 'b \<times> 'w) \<Rightarrow> 'w \<Rightarrow> exc + 'b \<times> 'w" where
  "and_then m f w = (case m w of Inl e \<Rightarrow> Inl e | Inr (a, w') \<Rightarrow> f a w')"

definition float_py :: "pylib \<Rightarrow> string \<Rightarrow> 'w \<Rightarrow> exc + real \<times> 'w" where
  "float_py py s w = (case to_float py s of None \<Rightarrow> Inl ValueError | Some x \<Rightarrow> Inr (x, w))"

definition quoted :: "string \<Rightarrow> string" where
  "quoted s = [CHR 0x27] @ s @ [CHR 0x27]"

text \<open>
  \<^verbatim>\<open>check_instrument_errors\<close>: ask for the instrument's error and exit unless the
  answer starts with \<^verbatim>\<open>+0,\<close> ("No error"). \<^verbatim>\<open>error_string.find("+0,", 0, 3)\<close>
  searches the first three characters only, so it is \<open>-1\<close> exactly when they are not
  \<^verbatim>\<open>+0,\<close>. Every path through the body of the \<^verbatim>\<open>while True\<close> leaves it (a
  \<^verbatim>\<open>break\<close> or an exit), so the body runs once.
\<close>

definition check_instrument_errors :: "'w visa \<Rightarrow> string \<Rightarrow> 'w \<Rightarrow> exc + unit \<times> 'w" where
  "check_instrument_errors io command w =
     (case ReadString io (WriteString io '':SYSTem:ERRor?'' w) of
        (error_string, w') \<Rightarrow>
          if error_string \<noteq> [] then
            (if take 3 error_string \<noteq> ''+0,'' then
               Inl (SystemExit 1
                     [''ERROR: '' @ error_string @ '', command: '' @ quoted command,
                      ''Exited because of error.''])
             else Inr ((), w'))
          else
            Inl (SystemExit 1
                  [''ERROR: :SYSTem:ERRor? returned nothing, command: '' @ quoted command,
                   ''Exited because of error.'']))"


definition do_command :: "'w visa \<Rightarrow> string \<Rightarrow> 'w \<Rightarrow> exc + unit \<times> 'w" where
  "do_command io command w = check_instrument_errors io command (WriteString io command w)"

definition do_query_string :: "'w visa \<Rightarrow> string \<Rightarrow> 'w \<Rightarrow> exc + string \<times> 'w" where
  "do_query_string io query w =
     (case ReadString io (WriteString io query w) of
        (result, w') \<Rightarrow>
          (case check_instrument_errors io query w' of
             Inl e \<Rightarrow> Inl e
           | Inr (u, w'') \<Rightarrow> Inr (result, w'')))"

definition autoscale :: "'w visa \<Rightarrow> 'w \<Rightarrow> exc + unit \<times> 'w" where
  "autoscale io = do_command io '':AUToscale''"

text \<open>\<^verbatim>\<open>generate_waveform(freq, ampl=1.0, offset=0.0)\<close>.\<close>

definition generate_waveform ::
  "pylib \<Rightarrow> 'w visa \<Rightarrow> real \<Rightarrow> real \<Rightarrow> real \<Rightarrow> 'w \<Rightarrow> exc + (real \<times> real \<times> real) \<times> 'w" where
  "generate_waveform py io freq ampl offset =
     and_then (do_command io '':WGEN:OUTput 1'') (\<lambda>_.
     and_then (do_command io '':WGEN:FUNCtion SIN'') (\<lambda>_.
     and_then (do_command io ('':WGEN:VOLTage '' @ fmt3f py ampl)) (\<lambda>_.
     and_then (do_command io ('':WGEN:FREQuency '' @ fmt3f py freq)) (\<lambda>_.
     and_then (do_command io ('':WGEN:VOLTage:OFFset '' @ fmt3f py offset)) (\<lambda>_.
     (\<lambda>w. Inr ((freq, ampl, offset), w)))))))"

text \<open>
  One reading of the instrument, the tuple \<^verbatim>\<open>capture_waveform\<close> returns: frequency and
  peak-to-peak amplitude of channel 1 (the circuit's input) and of channel 2 (its
  output), and the phase of channel 2 against channel 1.
\<close>

record sample =
  freq1 :: real
  ampl1 :: real
  freq2 :: real
  ampl2 :: real
  phase_diff :: real

definition capture_waveform :: "pylib \<Rightarrow> 'w visa \<Rightarrow> 'w \<Rightarrow> exc + sample \<times> 'w" where
  "capture_waveform py io =
     and_then (do_command io '':SINGLE'') (\<lambda>_.
     and_then (do_command io '':ACQuire:TYPE NORMal'') (\<lambda>_.
     and_then (do_query_string io '':ACQuire:TYPE?'') (\<lambda>_.
     and_then (do_command io '':DIGitize CHANnel1,CHANnel2'') (\<lambda>_.
     and_then (do_command io '':MEASure:SOURce CHANnel1,CHANnel2'') (\<lambda>_.
     and_then (do_query_string io '':MEASure:SOURce?'') (\<lambda>_.
     and_then (do_command io '':MEASure:FREQuency CHANnel1'') (\<lambda>_.
     and_then (do_query_string io '':MEASure:FREQuency? CHANnel1'') (\<lambda>qresult.
     and_then (float_py py qresult) (\<lambda>meas_freq1.
     and_then (do_command io '':MEASure:VPP CHANnel1'') (\<lambda>_.
     and_then (do_query_string io '':MEASure:VPP? CHANnel1'') (\<lambda>qresult.
     and_then (float_py py qresult) (\<lambda>meas_ampl1.
     and_then (do_command io '':MEASure:FREQuency CHANnel2'') (\<lambda>_.
     and_then (do_query_string io '':MEASure:FREQuency? CHANnel2'') (\<lambda>qresult.
     and_then (float_py py qresult) (\<lambda>meas_freq2.
     and_then (do_command io '':MEASure:VPP CHANnel2'') (\<lambda>_.
     and_then (do_query_string io '':MEASure:VPP? CHANnel2'') (\<lambda>qresult.
     and_then (float_py py qresult) (\<lambda>meas_ampl2.
     and_then (do_command io '':MEASure:PHASe CHANnel2,CHANnel1'') (\<lambda>_.
     and_then (do_query_string io '':MEASure:PHASe? CHANnel2,CHANnel1'') (\<lambda>qresult.
     and_then (float_py py qresult) (\<lambda>phase_diff.
     (\<lambda>w. Inr (\<lparr>freq1 = meas_freq1, ampl1 = meas_ampl1, freq2 = meas_freq2,
                 ampl2 = meas_ampl2, phase_diff = phase_diff\<rparr>, w)))))))))))))))))))))))"

section \<open>The sweep (FrequencyResponseCapture.py)\<close>

text \<open>
  What one pass of the sweep loop does with the instrument before it looks at the
  numbers: \<^verbatim>\<open>generate_waveform(curr_freq)\<close>, \<^verbatim>\<open>autoscale()\<close>, \<^verbatim>\<open>capture_waveform()\<close>.
  The same three calls prime the instrument before the loop.
\<close>

definition acquire :: "pylib \<Rightarrow> 'w visa \<Rightarrow> real \<Rightarrow> 'w \<Rightarrow> exc + sample \<times> 'w" where
  "acquire py io freq =
     and_then (generate_waveform py io freq 1.0 0.0) (\<lambda>_.
     and_then (autoscale io) (\<lambda>_.
     capture_waveform py io))"

text \<open>The test of the sweep loop on a sample ("Check for errors"); \<^verbatim>\<open>10E9\<close> is \<open>10\<^sup>1\<^sup>0\<close>.\<close>

definition erroneous :: "sample \<Rightarrow> bool" where
  "erroneous smp \<longleftrightarrow>
     freq2 smp > 1.5 * freq1 smp \<or> freq1 smp > 10 * 10 ^ 9 \<or> ampl1 smp > 10 * 10 ^ 9"

text \<open>
  \<^verbatim>\<open>20*math.log10(float(ampl2)/float(ampl1))\<close>: the division raises
  \<^verbatim>\<open>ZeroDivisionError\<close> on a zero divisor, and \<^verbatim>\<open>math.log10\<close> raises \<^verbatim>\<open>ValueError\<close>
  on an argument that is not positive.
\<close>

definition gain :: "sample \<Rightarrow> exc + real" where
  "gain smp =
     (if ampl1 smp = 0 then Inl ZeroDivisionError
      else if ampl2 smp / ampl1 smp \<le> 0 then Inl ValueError
      else Inr (20 * log 10 (ampl2 smp / ampl1 smp)))"

text \<open>The two kinds of line the sweep writes to the data file.\<close>

definition header_line :: string where
  "header_line =
     ''CH1_FREQ [Hz], CH1_AMPL [Vpp], CH2_FREQ [Hz], CH2_AMPL [Vpp], PHASE_DIFF [Deg], GAIN [dB]''
     @ [newline]"

definition row_line :: "pylib \<Rightarrow> sample \<Rightarrow> real \<Rightarrow> string" where
  "row_line py smp g =
     str_float py (freq1 smp) @ '', '' @ str_float py (ampl1 smp) @ '', '' @
     str_float py (freq2 smp) @ '', '' @ str_float py (ampl2 smp) @ '', '' @
     str_float py (phase_diff smp) @ '', '' @ str_float py g @ [newline]"

text \<open>
  The variables of \<^verbatim>\<open>sweep_frequency\<close>, with the state of the instrument, the text
  written to the data file so far (\<open>fp\<close>) and the printed lines. Of the printed output
  the model keeps the three lines of the abort branch; the progress lines are left out.
\<close>

record 'w sweep =
  scope :: 'w
  counter :: int
  error_cnt :: int
  curr_freq :: real
  fp :: string
  stdout :: "string list"

text \<open>
  How one pass through the body of the \<^verbatim>\<open>while\<close> ends: with an exception, with
  \<^verbatim>\<open>break\<close>, or back at the loop test (\<^verbatim>\<open>continue\<close>, or the end of the body).
\<close>

datatype 's flow = Raise exc | Break 's | Continue 's

definition sweep_body :: "pylib \<Rightarrow> 'w visa \<Rightarrow> real \<Rightarrow> 'w sweep \<Rightarrow> 'w sweep flow" where
  "sweep_body py io step st =
     (case acquire py io (curr_freq st) (scope st) of
        Inl e \<Rightarrow> Raise e
      | Inr (smp, w) \<Rightarrow>
          if erroneous smp then
            (let st1 = st\<lparr>scope := w, error_cnt := error_cnt st + 1,
                          curr_freq := curr_freq st + 2\<rparr>
             in if error_cnt st1 > 4 then
                  Break (st1\<lparr>stdout := stdout st1 @
                    [''>> [ERROR] Unable to read signal at '' @ fmt2f py (curr_freq st1) @ '' Hz!'',
                     ''>> [ERROR] Please modify frequency range and try again...'',
                     ''>> [INFO] Suggested Range: 100Hz - '' @
                        fmt0f py (curr_freq st1 - step) @ ''Hz'']\<rparr>)
                else Continue st1)
          else
            (case gain smp of
               Inl e \<Rightarrow> Raise e
             | Inr g \<Rightarrow>
                 Continue (st\<lparr>scope := w, fp := fp st @ row_line py smp g,
                              curr_freq := curr_freq st + step,
                              counter := counter st + 1\<rparr>)))"

text \<open>
  The \<^verbatim>\<open>while (curr_freq <= end_freq)\<close> loop. Nothing bounds the number of passes (a
  step of zero never leaves the loop), so the loop is a partial function: \<open>None\<close> is a
  sweep that never ends.
\<close>

partial_function (option) sweep_loop ::
  "pylib \<Rightarrow> 'w visa \<Rightarrow> real \<Rightarrow> real \<Rightarrow> 'w sweep \<Rightarrow> (exc + 'w sweep) option" where
  "sweep_loop py io end_freq step st =
     (if curr_freq st \<le> end_freq then
        (case sweep_body py io step st of
           Raise e \<Rightarrow> Some (Inl e)
         | Break st' \<Rightarrow> Some (Inr st')
         | Continue st' \<Rightarrow> sweep_loop py io end_freq step st')
      else Some (Inr st))"

text \<open>
  \<^verbatim>\<open>sweep_frequency(start_freq, end_freq, points)\<close> up to \<^verbatim>\<open>fp.close()\<close>: the result is
  the final state, whose \<open>fp\<close> is the contents of the closed data file. The step is a
  float division by the integer \<^verbatim>\<open>points-1\<close>. The closing call of \<^verbatim>\<open>plot_bode\<close> (the
  matplotlib variant in the same file) reads the file back and draws it, and is left to
  the plotting library.
\<close>

definition sweep_frequency ::
  "pylib \<Rightarrow> 'w visa \<Rightarrow> real \<Rightarrow> real \<Rightarrow> int \<Rightarrow> 'w \<Rightarrow> (exc + 'w sweep) option" where
  "sweep_frequency py io start_freq end_freq points w =
     (if points - 1 = 0 then Some (Inl ZeroDivisionError)
      else
        (let step = (end_freq - start_freq) / real_of_int (points - 1) in
         case acquire py io start_freq w of
           Inl e \<Rightarrow> Some (Inl e)
         | Inr (smp, w') \<Rightarrow>
             sweep_loop py io end_freq step
               \<lparr>scope = w', counter = 1, error_cnt = 0, curr_freq = start_freq,
                fp = header_line, stdout = []\<rparr>))"

text \<open>
  The contents of a data file with the given rows (a sample and its gain each): the
  header, then a line for each row.
\<close>

definition dataset_text :: "pylib \<Rightarrow> (sample \<times> real) list \<Rightarrow> string" where
  "dataset_text py rows = header_line @ concat (map (\<lambda>(smp, g). row_line py smp g) rows)"

text \<open>
  \<open>passes py io end_freq step st st'\<close>: the loop, started in \<open>st\<close>, is at its test in
  state \<open>st'\<close> after some number of passes through its body.
\<close>

inductive passes ::
  "pylib \<Rightarrow> 'w visa \<Rightarrow> real \<Rightarrow> real \<Rightarrow> 'w sweep \<Rightarrow> 'w sweep \<Rightarrow> bool"
  for py io end_freq step st where
    start: "passes py io end_freq step st st"
  | pass: "passes py io end_freq step st st' \<Longrightarrow> curr_freq st' \<le> end_freq \<Longrightarrow>
           sweep_body py io step st' = Continue st'' \<Longrightarrow> passes py io end_freq step st st''"

text \<open>
  \<open>ends_at py io end_freq step st r\<close>: the loop, started in \<open>st\<close>, reaches after some
  passes a state in which it ends with the result \<open>r\<close>: its test fails, or the next pass
  raises or breaks.
\<close>

definition ends_at :: "pylib \<Rightarrow> 'w visa \<Rightarrow> real \<Rightarrow> real \<Rightarrow> 'w sweep \<Rightarrow> exc + 'w sweep \<Rightarrow> bool" where
  "ends_at py io end_freq step st r \<longleftrightarrow>
     (\<exists>st1. passes py io end_freq step st st1 \<and>
           (\<not> curr_freq st1 \<le> end_freq \<and> r = Inr st1
            \<or> curr_freq st1 \<le> end_freq \<and>
               ((\<exists>e. sweep_body py io step st1 = Raise e \<and> r = Inl e)
                \<or> (\<exists>st'. sweep_body py io step st1 = Break st' \<and> r = Inr st'))))"

text \<open>
  The text of a row before its newline, the six values a row prints, and what the
  round trip needs of the float syntax at a value \<open>x\<close>: reading the printed text gives
  \<open>x\<close> back, and the text has no comma and no newline (the separators of the file).
\<close>

definition row_body :: "pylib \<Rightarrow> sample \<Rightarrow> real \<Rightarrow> string" where
  "row_body py smp g =
     str_float py (freq1 smp) @ '', '' @ str_float py (ampl1 smp) @ '', '' @
     str_float py (freq2 smp) @ '', '' @ str_float py (ampl2 smp) @ '', '' @
     str_float py (phase_diff smp) @ '', '' @ str_float py g"

definition row_values :: "sample \<times> real \<Rightarrow> real list" where
  "row_values r =
     [freq1 (fst r), ampl1 (fst r), freq2 (fst r), ampl2 (fst r), phase_diff (fst r), snd r]"

definition prints_back :: "pylib \<Rightarrow> real \<Rightarrow> bool" where
  "prints_back py x \<longleftrightarrow>
     to_float py (str_float py x) = Some x
     \<and> CHR '','' \<notin> set (str_float py x) \<and> newline \<notin> set (str_float py x)"

subsection \<open>An acquisition as a list of actions\<close>






subsection \<open>The sweep in binary64 arithmetic\<close>

text \<open>
  Python's \<^verbatim>\<open>float\<close> is the IEEE 754 binary64 format, and each float operation returns
  the exact result rounded to the nearest float, ties to the even mantissa.
  \<open>ulp x\<close> is the spacing of the floats around a positive \<open>x\<close>: \<open>2 ^ (e - 52)\<close> for
  \<open>2 ^ e \<le> x < 2 ^ (e + 1)\<close>, and \<open>2 ^ - 1074\<close> below the least normal number
  \<open>2 ^ - 1022\<close>. \<open>double x\<close> is the float nearest to \<open>x\<close>. Overflow to infinity and NaN
  are not modelled.
\<close>

function ulp_up :: "real \<Rightarrow> real \<Rightarrow> real" where
  "ulp_up u x = (if x < 2 then u else ulp_up (2 * u) (x / 2))"
  by pat_completeness auto
termination
proof (relation "measure (\<lambda>(u, x). nat \<lfloor>x\<rfloor>)")
  show "wf (measure (\<lambda>(u, x). nat \<lfloor>x\<rfloor>))" by simp
next
  fix u x :: real
  assume "\<not> x < 2"
  then have "x / 2 \<le> x - 1" and "2 \<le> \<lfloor>x\<rfloor>"
    by (simp_all add: le_floor_iff)
  then have "\<lfloor>x / 2\<rfloor> \<le> \<lfloor>x\<rfloor> - 1" and "0 < \<lfloor>x\<rfloor>"
    using floor_mono [of "x / 2" "x - 1"] by simp_all
  then show "((2 * u, x / 2), (u, x)) \<in> measure (\<lambda>(u, x). nat \<lfloor>x\<rfloor>)"
    by simp
qed

declare ulp_up.simps [simp del]

function ulp_down :: "nat \<Rightarrow> real \<Rightarrow> real \<Rightarrow> real" where
  "ulp_down n u x = (if 1 \<le> x \<or> 1022 \<le> n then u else ulp_down (Suc n) (u / 2) (2 * x))"
  by pat_completeness auto
termination
  by (relation "measure (\<lambda>(n, u, x). 1022 - n)") auto

declare ulp_down.simps [simp del]

definition ulp :: "real \<Rightarrow> real" where
  "ulp x = (if 1 \<le> x then ulp_up (1 / 2 ^ 52) x else ulp_down 0 (1 / 2 ^ 52) x)"

definition round_half_even :: "real \<Rightarrow> int" where
  "round_half_even q =
     (if q - of_int \<lfloor>q\<rfloor> < 1 / 2 then \<lfloor>q\<rfloor>
      else if 1 / 2 < q - of_int \<lfloor>q\<rfloor> then \<lfloor>q\<rfloor> + 1
      else if even \<lfloor>q\<rfloor> then \<lfloor>q\<rfloor> else \<lfloor>q\<rfloor> + 1)"

definition double :: "real \<Rightarrow> real" where
  "double x =
     (if x = 0 then 0
      else if 0 < x then of_int (round_half_even (x / ulp x)) * ulp x
      else - (of_int (round_half_even (- x / ulp (- x))) * ulp (- x)))"

text \<open>
  The float operations that \<^verbatim>\<open>sweep_frequency\<close> performs: \<open>rnd\<close> rounds the exact
  result of a sum, difference, product or quotient, and \<open>log10_fl\<close> is
  \<^verbatim>\<open>math.log10\<close>. \<open>exact\<close> rounds nothing, as in the definitions above;
  \<open>binary64\<close> rounds to the nearest float, the logarithm too.
\<close>

record floats =
  rnd :: "real \<Rightarrow> real"
  log10_fl :: "real \<Rightarrow> real"

definition exact :: floats where
  "exact = \<lparr>rnd = (\<lambda>x. x), log10_fl = log 10\<rparr>"

definition binary64 :: floats where
  "binary64 = \<lparr>rnd = double, log10_fl = (\<lambda>x. double (log 10 x))\<rparr>"

text \<open>
  The sweep once more, line for line as above, with every float operation of the source
  rounded: the product \<^verbatim>\<open>1.5*freq1\<close> of the guard, the quotient, the logarithm and the
  product of the gain, the sums \<^verbatim>\<open>curr_freq += 2\<close> and \<^verbatim>\<open>curr_freq += step\<close>, the
  difference \<^verbatim>\<open>curr_freq-step\<close> of the message, and the difference and the quotient of
  \<^verbatim>\<open>step = (end_freq - start_freq)/(points-1)\<close>. The float \<^verbatim>\<open>10E9\<close> is the integer
  \<open>10 ^ 10\<close>, and \<^verbatim>\<open>math.log10\<close> raises \<^verbatim>\<open>ValueError\<close> on the rounded quotient when
  that is not positive.
\<close>

definition erroneous_fl :: "floats \<Rightarrow> sample \<Rightarrow> bool" where
  "erroneous_fl fa smp \<longleftrightarrow>
     freq2 smp > rnd fa (1.5 * freq1 smp) \<or> freq1 smp > 10 * 10 ^ 9 \<or> ampl1 smp > 10 * 10 ^ 9"

definition gain_fl :: "floats \<Rightarrow> sample \<Rightarrow> exc + real" where
  "gain_fl fa smp =
     (if ampl1 smp = 0 then Inl ZeroDivisionError
      else if rnd fa (ampl2 smp / ampl1 smp) \<le> 0 then Inl ValueError
      else Inr (rnd fa (20 * log10_fl fa (rnd fa (ampl2 smp / ampl1 smp)))))"

definition sweep_body_fl ::
  "floats \<Rightarrow> pylib \<Rightarrow> 'w visa \<Rightarrow> real \<Rightarrow> 'w sweep \<Rightarrow> 'w sweep flow" where
  "sweep_body_fl fa py io step st =
     (case acquire py io (curr_freq st) (scope st) of
        Inl e \<Rightarrow> Raise e
      | Inr (smp, w) \<Rightarrow>
          if erroneous_fl fa smp then
            (let st1 = st\<lparr>scope := w, error_cnt := error_cnt st + 1,
                          curr_freq := rnd fa (curr_freq st + 2)\<rparr>
             in if error_cnt st1 > 4 then
                  Break (st1\<lparr>stdout := stdout st1 @
                    [''>> [ERROR] Unable to read signal at '' @ fmt2f py (curr_freq st1) @ '' Hz!'',
                     ''>> [ERROR] Please modify frequency range and try again...'',
                     ''>> [INFO] Suggested Range: 100Hz - '' @
                        fmt0f py (rnd fa (curr_freq st1 - step)) @ ''Hz'']\<rparr>)
                else Continue st1)
          else
            (case gain_fl fa smp of
               Inl e \<Rightarrow> Raise e
             | Inr g \<Rightarrow>
                 Continue (st\<lparr>scope := w, fp := fp st @ row_line py smp g,
                              curr_freq := rnd fa (curr_freq st + step),
                              counter := counter st + 1\<rparr>)))"

partial_function (option) sweep_loop_fl ::
  "floats \<Rightarrow> pylib \<Rightarrow> 'w visa \<Rightarrow> real \<Rightarrow> real \<Rightarrow> 'w sweep \<Rightarrow> (exc + 'w sweep) option" where
  "sweep_loop_fl fa py io end_freq step st =
     (if curr_freq st \<le> end_freq then
        (case sweep_body_fl fa py io step st of
           Raise e \<Rightarrow> Some (Inl e)
         | Break st' \<Rightarrow> Some (Inr st')
         | Continue st' \<Rightarrow> sweep_loop_fl fa py io end_freq step st')
      else Some (Inr st))"

definition sweep_frequency_fl ::
  "floats \<Rightarrow> pylib \<Rightarrow> 'w visa \<Rightarrow> real \<Rightarrow> real \<Rightarrow> int \<Rightarrow> 'w \<Rightarrow> (exc + 'w sweep) option" where
  "sweep_frequency_fl fa py io start_freq end_freq points w =
     (if points - 1 = 0 then Some (Inl ZeroDivisionError)
      else
        (let step = rnd fa (rnd fa (end_freq - start_freq) / real_of_int (points - 1)) in
         case acquire py io start_freq w of
           Inl e \<Rightarrow> Some (Inl e)
         | Inr (smp, w') \<Rightarrow>
             sweep_loop_fl fa py io end_freq step
               \<lparr>scope = w', counter = 1, error_cnt = 0, curr_freq = start_freq,
                fp = header_line, stdout = []\<rparr>))"


section \<open>A scripted instrument for concrete runs\<close>

text \<open>
  Concrete runs of the sweep need an instrument and a float syntax. The scripted
  instrument \<open>replay\<close> ignores what is written to it and answers every read with the
  next line of a script (the empty string once the script is used up). The library
  \<open>decimal_py\<close> reads and prints floats as unsigned decimal integers, a fragment of what
  \<^verbatim>\<open>float\<close> accepts.
\<close>

definition replay :: "string list visa" where
  "replay =
     \<lparr>WriteString = (\<lambda>command script. script),
      ReadString = (\<lambda>script. case script of [] \<Rightarrow> ([], []) | r # rest \<Rightarrow> (r, rest))\<rparr>"

fun digits_value :: "nat \<Rightarrow> string \<Rightarrow> nat option" where
  "digits_value acc [] = Some acc"
| "digits_value acc (c # cs) =
     (if 48 \<le> (of_char c :: nat) \<and> (of_char c :: nat) \<le> 57
      then digits_value (10 * acc + (of_char c - 48)) cs
      else None)"

definition float_of_digits :: "string \<Rightarrow> real option" where
  "float_of_digits s = (if s = [] then None else map_option real (digits_value 0 s))"

function digits_of :: "nat \<Rightarrow> string" where
  "digits_of n =
     (if n < 10 then [''0123456789'' ! n]
      else digits_of (n div 10) @ [''0123456789'' ! (n mod 10)])"
  by pat_completeness auto
termination
  by (relation "measure id") auto

declare digits_of.simps [simp del]

definition decimal_py :: pylib where
  "decimal_py =
     \<lparr>to_float = float_of_digits,
      str_float = (\<lambda>x. digits_of (nat \<lfloor>x\<rfloor>)),
      fmt3f = (\<lambda>x. digits_of (nat \<lfloor>x\<rfloor>)),
      fmt2f = (\<lambda>x. digits_of (nat \<lfloor>x\<rfloor>)),
      fmt0f = (\<lambda>x. digits_of (nat \<lfloor>x\<rfloor>))\<rparr>"

text \<open>
  The answers of a healthy instrument to the 29 reads of one \<open>acquire\<close>: "no error"
  after each of the six generator and autoscale commands and after each command and
  query of \<^verbatim>\<open>capture_waveform\<close>, with the two settings and the five readings in
  between.
\<close>

definition no_error :: string where
  "no_error = ''+0,No error''"

definition answers :: "string \<Rightarrow> string \<Rightarrow> string \<Rightarrow> string \<Rightarrow> string \<Rightarrow> string list" where
  "answers f1 a1 f2 a2 pd =
     replicate 6 no_error @
     [no_error, no_error, ''NORM'', no_error, no_error, no_error, ''CHAN1,CHAN2'', no_error,
      no_error, f1, no_error, no_error, a1, no_error, no_error, f2, no_error,
      no_error, a2, no_error, no_error, pd, no_error]"

text \<open>A data file of the sweep's format with two rows, for concrete runs of the reader.\<close>

definition two_rows :: string where
  "two_rows =
     header_line @ ''1, 1, 1, 10, 0, 20'' @ [newline] @ ''2, 1, 2, 7, 45, 17'' @ [newline]"

text \<open>A data file with a single row.\<close>

definition one_row :: string where
  "one_row = header_line @ ''1, 1, 1, 1, 0, 0'' @ [newline]"

text \<open>
  A script for a sweep from 50 Hz: the priming, one good reading at 50 Hz, then five
  readings whose output frequency is twice the input frequency.
\<close>

definition five_faults_script :: "string list" where
  "five_faults_script =
     answers ''50'' ''1'' ''50'' ''1'' ''0'' @
     answers ''50'' ''1'' ''50'' ''1'' ''0'' @
     answers ''150'' ''1'' ''300'' ''1'' ''0'' @
     answers ''150'' ''1'' ''300'' ''1'' ''0'' @
     answers ''150'' ''1'' ''300'' ''1'' ''0'' @
     answers ''150'' ''1'' ''300'' ''1'' ''0'' @
     answers ''150'' ''1'' ''300'' ''1'' ''0''"

text \<open>
  A script for a sweep whose start and stop frequencies are both 100 Hz: the priming, two
  good readings, then a reading whose output frequency is twice the input frequency.
\<close>

definition stalled_script :: "string list" where
  "stalled_script =
     answers ''100'' ''1'' ''100'' ''1'' ''0'' @
     answers ''100'' ''1'' ''100'' ''1'' ''0'' @
     answers ''100'' ''1'' ''100'' ''1'' ''0'' @
     answers ''100'' ''1'' ''200'' ''1'' ''0''"

text \<open>
  A script for a sweep from 100 Hz to 200 Hz in two points: the priming, a good reading
  at 100 Hz, and a reading at 200 Hz whose output frequency is twice the input frequency.
\<close>

definition overshoot_script :: "string list" where
  "overshoot_script =
     answers ''100'' ''1'' ''100'' ''1'' ''0'' @
     answers ''100'' ''1'' ''100'' ''1'' ''0'' @
     answers ''200'' ''1'' ''400'' ''1'' ''0''"

text \<open>
  Two scripts for a sweep from 100 Hz to 200 Hz in two points. In the first the
  instrument reads back the frequency it is driven at; in the second it reads 100 Hz,
  then 50 Hz.
\<close>

definition two_point_script :: "string list" where
  "two_point_script =
     answers ''100'' ''1'' ''100'' ''1'' ''0'' @
     answers ''100'' ''1'' ''100'' ''10'' ''0'' @
     answers ''200'' ''1'' ''200'' ''1'' ''90''"

definition wandering_script :: "string list" where
  "wandering_script =
     answers ''100'' ''1'' ''100'' ''1'' ''0'' @
     answers ''100'' ''1'' ''100'' ''1'' ''0'' @
     answers ''50'' ''1'' ''50'' ''1'' ''0''"



text \<open>
  A script for a sweep of 24 points on which every sample is accepted: the priming
  acquisition and 24 more, each reading 100 Hz and 1 Vpp on both channels.
\<close>

definition steady_script :: "string list" where
  "steady_script = concat (replicate 25 (answers ''100'' ''1'' ''100'' ''1'' ''0''))"


section \<open>The cutoff search\<close>

lemmas reader_defs = header_line_def parse_line_def newline_def strip_newlines_def
  split_py.simps decimal_py_def float_of_digits_def


text \<open>
  The builtins in closed form: \<^verbatim>\<open>max\<close> is the maximum, \<^verbatim>\<open>min\<close> with a key returns the
  first element whose key is least, and \<^verbatim>\<open>index\<close> finds an element at its first
  position.
\<close>

lemma foldl_max_py: "foldl (\<lambda>m y. if y > m then y else m) x rest = Max (set (x # rest))"
proof (induction rest arbitrary: x)
  case Nil
  then show ?case by simp
next
  case (Cons y ys)
  have "foldl (\<lambda>m y. if y > m then y else m) (if y > x then y else x) ys
          = Max (set ((if y > x then y else x) # ys))"
    by (rule Cons.IH)
  also have "\<dots> = Max (set (x # y # ys))"
    by (cases "ys = []") (auto simp: max_def)
  finally show ?case by simp
qed

lemma max_py_Max: "xs \<noteq> [] \<Longrightarrow> max_py xs = Inr (Max (set xs))"
  by (cases xs) (simp_all add: max_py_def foldl_max_py del: foldl_Cons set_simps)

lemma foldl_min_key:
  fixes k :: "'a \<Rightarrow> real"
  shows "\<exists>i < length (x # rest).
           foldl (\<lambda>m y. if k y < k m then y else m) x rest = (x # rest) ! i
         \<and> (\<forall>j < length (x # rest). k ((x # rest) ! i) \<le> k ((x # rest) ! j))
         \<and> (\<forall>j < i. k ((x # rest) ! i) < k ((x # rest) ! j))"
proof (induction rest rule: rev_induct)
  case Nil
  then show ?case by simp
next
  case (snoc y ys)
  let ?xs = "x # ys"
  let ?f = "\<lambda>m y. if k y < k m then y else m"
  from snoc obtain i where i: "i < length ?xs" "foldl ?f x ys = ?xs ! i"
    "\<forall>j < length ?xs. k (?xs ! i) \<le> k (?xs ! j)" "\<forall>j < i. k (?xs ! i) < k (?xs ! j)"
    by blast
  have nth_old: "(?xs @ [y]) ! j = ?xs ! j" if "j < length ?xs" for j
    using that nth_append [of ?xs "[y]" j] by simp
  have nth_new: "(?xs @ [y]) ! length ?xs = y"
    by (metis nth_append_length)
  show ?case
  proof (cases "k y < k (?xs ! i)")
    case True
    have "foldl ?f x (ys @ [y]) = (?xs @ [y]) ! length ?xs"
      using True i(2) nth_new by simp
    moreover have "\<forall>j < length (?xs @ [y]). k ((?xs @ [y]) ! length ?xs) \<le> k ((?xs @ [y]) ! j)"
    proof (intro allI impI)
      fix j assume "j < length (?xs @ [y])"
      then consider "j < length ?xs" | "j = length ?xs" by fastforce
      then show "k ((?xs @ [y]) ! length ?xs) \<le> k ((?xs @ [y]) ! j)"
      proof cases
        case 1
        then have "k (?xs ! i) \<le> k (?xs ! j)" using i(3) by blast
        with True 1 show ?thesis unfolding nth_new nth_old [OF 1] by linarith
      next
        case 2
        then show ?thesis by simp
      qed
    qed
    moreover have "\<forall>j < length ?xs. k ((?xs @ [y]) ! length ?xs) < k ((?xs @ [y]) ! j)"
    proof (intro allI impI)
      fix j assume 1: "j < length ?xs"
      then have "k (?xs ! i) \<le> k (?xs ! j)" using i(3) by blast
      with True show "k ((?xs @ [y]) ! length ?xs) < k ((?xs @ [y]) ! j)"
        unfolding nth_new nth_old [OF 1] by linarith
    qed
    ultimately show ?thesis
      by (intro exI [of _ "length ?xs"]) simp
  next
    case False
    have "foldl ?f x (ys @ [y]) = (?xs @ [y]) ! i"
      using False i(1,2) nth_old [OF i(1)] by simp
    moreover have "\<forall>j < length (?xs @ [y]). k ((?xs @ [y]) ! i) \<le> k ((?xs @ [y]) ! j)"
    proof (intro allI impI)
      fix j assume "j < length (?xs @ [y])"
      then consider "j < length ?xs" | "j = length ?xs" by fastforce
      then show "k ((?xs @ [y]) ! i) \<le> k ((?xs @ [y]) ! j)"
      proof cases
        case 1
        then show ?thesis using i(3) unfolding nth_old [OF 1] nth_old [OF i(1)] by blast
      next
        case 2
        then show ?thesis using False unfolding 2 nth_new nth_old [OF i(1)] by linarith
      qed
    qed
    moreover have "\<forall>j < i. k ((?xs @ [y]) ! i) < k ((?xs @ [y]) ! j)"
    proof (intro allI impI)
      fix j assume "j < i"
      then have 1: "j < length ?xs" using i(1) by linarith
      show "k ((?xs @ [y]) ! i) < k ((?xs @ [y]) ! j)"
        using i(4) \<open>j < i\<close> unfolding nth_old [OF 1] nth_old [OF i(1)] by blast
    qed
    ultimately show ?thesis
      using i(1) by (intro exI [of _ i]) simp
  qed
qed

lemma index_py_first:
  "i < length xs \<Longrightarrow> \<forall>j < i. xs ! j \<noteq> xs ! i \<Longrightarrow> index_py xs (xs ! i) = Inr i"
proof (induction xs arbitrary: i)
  case Nil
  then show ?case by simp
next
  case (Cons x xs)
  show ?case
  proof (cases i)
    case 0
    then show ?thesis by simp
  next
    case (Suc n)
    from Cons.prems Suc have n: "n < length xs" by simp
    have head: "x \<noteq> xs ! n"
      using Cons.prems(2) [rule_format, of 0] Suc by simp
    have "\<forall>j < n. xs ! j \<noteq> xs ! n"
    proof (intro allI impI)
      fix j assume "j < n"
      then have "Suc j < i" using Suc by simp
      from Cons.prems(2) [rule_format, OF this] Suc show "xs ! j \<noteq> xs ! n" by simp
    qed
    with Cons.IH n have "index_py xs (xs ! n) = Inr n" by blast
    with head Suc show ?thesis by simp
  qed
qed


lemma find_cutoff_first_argmin:
  assumes "gs \<noteq> []"
  shows "\<exists>i < length gs. find_cutoff gs = Inr i
           \<and> (\<forall>j < length gs. \<bar>gs ! i - (Max (set gs) - 3)\<bar> \<le> \<bar>gs ! j - (Max (set gs) - 3)\<bar>)
           \<and> (\<forall>j < i. \<bar>gs ! i - (Max (set gs) - 3)\<bar> < \<bar>gs ! j - (Max (set gs) - 3)\<bar>)"
proof -
  from assms obtain x rest where gs: "gs = x # rest"
    by (cases gs) auto
  let ?k = "\<lambda>v. \<bar>v - (Max (set gs) - 3)\<bar>"
  obtain i where i: "i < length gs"
    "foldl (\<lambda>m y. if ?k y < ?k m then y else m) x rest = gs ! i"
    "\<forall>j < length gs. ?k (gs ! i) \<le> ?k (gs ! j)" "\<forall>j < i. ?k (gs ! i) < ?k (gs ! j)"
    using foldl_min_key [where k = ?k and x = x and rest = rest] unfolding gs by blast
  have "min_key_py ?k gs = Inr (gs ! i)"
    using i(2) by (simp add: min_key_py_def gs)
  moreover have "index_py gs (gs ! i) = Inr i"
    using i(1,4) by (intro index_py_first) auto
  ultimately have "find_cutoff gs = Inr i"
    using max_py_Max [OF assms] by (simp add: find_cutoff_def)
  with i(1,3,4) show ?thesis by blast
qed

lemma parse_lines_lengths:
  "parse_lines py ls = (fs, ps, gs) \<Longrightarrow> length fs = length gs \<and> length ps = length gs"
  by (induction ls arbitrary: fs ps gs) (auto split: prod.splits option.splits)

text \<open>
  C4. On a dataset of at least two rows, \<^verbatim>\<open>plot_bode\<close> takes the maximum of the gains
  as the reference, and its cutoff index is the first of the indices whose gain is
  nearest (in absolute difference) to the reference less 3 dB; the two marker lines are
  drawn at the gain and at the phase of that index. For the gains 0, -1, -3, -6, -9 dB
  the index is 2.
\<close>

theorem cutoff_selection:
  assumes "parse_lines py (file_lines contents) = (fs, ps, gs)" and "2 \<le> length gs"
  shows "(\<exists>b. plot_bode py contents = Inr b
            \<and> max_py gs = Inr (Max (set gs))
            \<and> cutoff_index b < length gs
            \<and> (\<forall>j < length gs. \<bar>gs ! cutoff_index b - (Max (set gs) - 3)\<bar>
                                 \<le> \<bar>gs ! j - (Max (set gs) - 3)\<bar>)
            \<and> (\<forall>j < cutoff_index b. \<bar>gs ! cutoff_index b - (Max (set gs) - 3)\<bar>
                                     < \<bar>gs ! j - (Max (set gs) - 3)\<bar>)
            \<and> gain_hline b = gs ! cutoff_index b
            \<and> phase_hline b = ps ! cutoff_index b)
         \<and> find_cutoff [0, -1, -3, -6, -9] = Inr 2"
proof -
  from assms(2) have ne: "gs \<noteq> []" by auto
  from parse_lines_lengths [OF assms(1)] have len: "length fs = length gs" "length ps = length gs"
    by simp_all
  with ne have fs: "fs \<noteq> []" by auto
  from find_cutoff_first_argmin [OF ne] obtain i where i: "i < length gs" "find_cutoff gs = Inr i"
    "\<forall>j < length gs. \<bar>gs ! i - (Max (set gs) - 3)\<bar> \<le> \<bar>gs ! j - (Max (set gs) - 3)\<bar>"
    "\<forall>j < i. \<bar>gs ! i - (Max (set gs) - 3)\<bar> < \<bar>gs ! j - (Max (set gs) - 3)\<bar>"
    by blast
  let ?b = "\<lparr>freq_arr = fs, phase_arr = ps, gain_arr = gs, cutoff_index = i,
             gain_hline = gs ! i, phase_hline = ps ! i\<rparr>"
  have "plot_bode py contents = Inr ?b"
    using assms(1) fs i(1,2) len by (simp add: plot_bode_def bode_figure_def getitem_def)
  with i max_py_Max [OF ne] have first: "\<exists>b. plot_bode py contents = Inr b
            \<and> max_py gs = Inr (Max (set gs))
            \<and> cutoff_index b < length gs
            \<and> (\<forall>j < length gs. \<bar>gs ! cutoff_index b - (Max (set gs) - 3)\<bar>
                                 \<le> \<bar>gs ! j - (Max (set gs) - 3)\<bar>)
            \<and> (\<forall>j < cutoff_index b. \<bar>gs ! cutoff_index b - (Max (set gs) - 3)\<bar>
                                     < \<bar>gs ! j - (Max (set gs) - 3)\<bar>)
            \<and> gain_hline b = gs ! cutoff_index b
            \<and> phase_hline b = ps ! cutoff_index b"
    by (intro exI [of _ ?b]) simp
  have "find_cutoff [0, -1, -3, -6, -9] = Inr 2"
    by (simp add: find_cutoff_def max_py_def min_key_py_def)
  with first show ?thesis by blast
qed

theorem cutoff_selection_witness:
  "parse_lines decimal_py (file_lines two_rows) = ([1, 2], [0, 45], [20, 17])
   \<and> 2 \<le> length [20, 17 :: real]
   \<and> (\<exists>b. plot_bode decimal_py two_rows = Inr b \<and> cutoff_index b = 1
            \<and> gain_hline b = 17 \<and> phase_hline b = 45)"
proof -
  have h1: "parse_lines decimal_py (file_lines two_rows) = ([1, 2], [0, 45], [20, 17])"
    by (simp add: two_rows_def header_line_def parse_line_def newline_def strip_newlines_def
        split_py.simps decimal_py_def float_of_digits_def)
  have h2: "2 \<le> length [20, 17 :: real]"
    by simp
  from cutoff_selection [OF h1 h2] obtain b where b: "plot_bode decimal_py two_rows = Inr b"
    "cutoff_index b < length [20, 17 :: real]"
    "\<forall>j < length [20, 17 :: real].
        \<bar>[20, 17] ! cutoff_index b - (Max (set [20, 17 :: real]) - 3)\<bar>
          \<le> \<bar>[20, 17] ! j - (Max (set [20, 17 :: real]) - 3)\<bar>"
    "gain_hline b = [20, 17] ! cutoff_index b" "phase_hline b = [0, 45] ! cutoff_index b"
    by blast
  have "cutoff_index b = 1"
  proof (rule ccontr)
    assume "cutoff_index b \<noteq> 1"
    with b(2) have "cutoff_index b = 0" by simp
    with b(3) [rule_format, of 1] show False by simp
  qed
  with b(1,4,5) h1 h2 show ?thesis by simp
qed

text \<open>
  C6 (as the code behaves). \<^verbatim>\<open>plot_bode\<close> has no check for a short dataset. On a file
  with no accepted row it fails with the \<^verbatim>\<open>IndexError\<close> of \<^verbatim>\<open>freq_arr[0]\<close>; on a file
  with exactly one accepted row it reports no error and marks that row: the cutoff
  index is 0 and the marker lines are at the row's gain and phase.
\<close>

theorem cutoff_short_dataset:
  "(parse_lines py (file_lines contents) = ([], [], [])
      \<longrightarrow> plot_bode py contents = Inl IndexError)
   \<and> (parse_lines py (file_lines contents) = ([f], [p], [g])
      \<longrightarrow> plot_bode py contents
            = Inr \<lparr>freq_arr = [f], phase_arr = [p], gain_arr = [g], cutoff_index = 0,
                   gain_hline = g, phase_hline = p\<rparr>)"
  by (simp add: plot_bode_def bode_figure_def find_cutoff_def max_py_def min_key_py_def
      getitem_def)

theorem cutoff_short_dataset_witness:
  "(parse_lines decimal_py (file_lines header_line) = ([], [], [])
      \<and> plot_bode decimal_py header_line = Inl IndexError)
   \<and> (parse_lines decimal_py (file_lines one_row) = ([1], [0], [0])
      \<and> plot_bode decimal_py one_row
            = Inr \<lparr>freq_arr = [1], phase_arr = [0], gain_arr = [0], cutoff_index = 0,
                   gain_hline = 0, phase_hline = 0\<rparr>)"
proof -
  have h0: "parse_lines decimal_py (file_lines header_line) = ([], [], [])"
    by (simp add: reader_defs)
  have h1: "parse_lines decimal_py (file_lines one_row) = ([1], [0], [0])"
    by (simp add: one_row_def reader_defs)
  from h0 cutoff_short_dataset [of decimal_py header_line]
  have c0: "plot_bode decimal_py header_line = Inl IndexError"
    by blast
  from h1 cutoff_short_dataset [of decimal_py one_row 1 0 0]
  have c1: "plot_bode decimal_py one_row
            = Inr \<lparr>freq_arr = [1], phase_arr = [0], gain_arr = [0], cutoff_index = 0,
                   gain_hline = 0, phase_hline = 0\<rparr>"
    by blast
  from h0 h1 c0 c1 show ?thesis by blast
qed


text \<open>
  The claim that a dataset of fewer than two rows is reported as an error fails on a
  file with one row: \<^verbatim>\<open>plot_bode\<close> returns its figure.
\<close>

theorem cutoff_one_row_counterexample:
  "parse_lines decimal_py (file_lines one_row) = ([1], [0], [0])
   \<and> plot_bode decimal_py one_row
       = Inr \<lparr>freq_arr = [1], phase_arr = [0], gain_arr = [0], cutoff_index = 0,
              gain_hline = 0, phase_hline = 0\<rparr>"
  by (simp add: one_row_def plot_bode_def bode_figure_def find_cutoff_def max_py_def
      min_key_py_def getitem_def reader_defs)

section \<open>The scripted instrument answers as scripted\<close>

lemma check_replay_ok: "check_instrument_errors replay c (no_error # rest) = Inr ((), rest)"
  by (simp add: check_instrument_errors_def replay_def no_error_def)

lemma do_command_replay_ok: "do_command replay c (no_error # rest) = Inr ((), rest)"
  by (simp add: do_command_def check_instrument_errors_def replay_def no_error_def)

lemma do_query_replay_ok: "do_query_string replay c (r # no_error # rest) = Inr (r, rest)"
  by (simp add: do_query_string_def check_instrument_errors_def replay_def no_error_def)

lemma acquire_replay:
  assumes "to_float py f1 = Some x1" "to_float py a1 = Some y1" "to_float py f2 = Some x2"
    "to_float py a2 = Some y2" "to_float py pd = Some p"
  shows "acquire py replay f (answers f1 a1 f2 a2 pd @ rest)
       = Inr (\<lparr>freq1 = x1, ampl1 = y1, freq2 = x2, ampl2 = y2, phase_diff = p\<rparr>, rest)"
  using assms
  by (simp add: acquire_def generate_waveform_def autoscale_def capture_waveform_def answers_def
      and_then_def do_command_replay_ok do_query_replay_ok float_py_def numeral_eq_Suc)


lemma acquire_replay_eq:
  "acquire py replay f (answers f1 a1 f2 a2 pd @ rest) =
     and_then (float_py py f1) (\<lambda>x1.
     and_then (float_py py a1) (\<lambda>y1.
     and_then (float_py py f2) (\<lambda>x2.
     and_then (float_py py a2) (\<lambda>y2.
     and_then (float_py py pd) (\<lambda>p w.
       Inr (\<lparr>freq1 = x1, ampl1 = y1, freq2 = x2, ampl2 = y2, phase_diff = p\<rparr>, w)))))) rest"
  by (simp add: acquire_def generate_waveform_def autoscale_def capture_waveform_def answers_def
      and_then_def do_command_replay_ok do_query_replay_ok float_py_def numeral_eq_Suc
      split: option.splits)

lemma acquire_replay_last:
  "acquire py replay f (answers f1 a1 f2 a2 pd) =
     and_then (float_py py f1) (\<lambda>x1.
     and_then (float_py py a1) (\<lambda>y1.
     and_then (float_py py f2) (\<lambda>x2.
     and_then (float_py py a2) (\<lambda>y2.
     and_then (float_py py pd) (\<lambda>p w.
       Inr (\<lparr>freq1 = x1, ampl1 = y1, freq2 = x2, ampl2 = y2, phase_diff = p\<rparr>, w)))))) []"
  using acquire_replay_eq [of py f f1 a1 f2 a2 pd "[]"] by simp

lemmas decimal_defs = decimal_py_def float_of_digits_def digits_of.simps

lemmas run_defs = sweep_frequency_def sweep_loop.simps sweep_body_def erroneous_def gain_def
  row_line_def acquire_replay_eq acquire_replay_last and_then_def float_py_def decimal_defs

section \<open>One pass of the sweep loop\<close>

lemma sweep_body_raise:
  "acquire py io (curr_freq st) (scope st) = Inl e \<Longrightarrow> sweep_body py io step st = Raise e"
  by (simp add: sweep_body_def)

lemma sweep_body_erroneous:
  assumes "acquire py io (curr_freq st) (scope st) = Inr (smp, w)" and "erroneous smp"
  shows "sweep_body py io step st =
           (if error_cnt st + 1 > 4 then
              Break (st\<lparr>scope := w, error_cnt := error_cnt st + 1, curr_freq := curr_freq st + 2,
                         stdout := stdout st @
                           [''>> [ERROR] Unable to read signal at '' @ fmt2f py (curr_freq st + 2) @ '' Hz!'',
                            ''>> [ERROR] Please modify frequency range and try again...'',
                            ''>> [INFO] Suggested Range: 100Hz - '' @
                               fmt0f py (curr_freq st + 2 - step) @ ''Hz'']\<rparr>)
            else Continue (st\<lparr>scope := w, error_cnt := error_cnt st + 1,
                              curr_freq := curr_freq st + 2\<rparr>))"
  using assms by (simp add: sweep_body_def Let_def)

lemma sweep_body_valid:
  assumes "acquire py io (curr_freq st) (scope st) = Inr (smp, w)" and "\<not> erroneous smp"
  shows "sweep_body py io step st =
           (case gain smp of
              Inl e \<Rightarrow> Raise e
            | Inr g \<Rightarrow> Continue (st\<lparr>scope := w, fp := fp st @ row_line py smp g,
                                    curr_freq := curr_freq st + step,
                                    counter := counter st + 1\<rparr>))"
  using assms by (simp add: sweep_body_def)

lemma sweep_loop_done:
  "\<not> curr_freq st \<le> end_freq \<Longrightarrow> sweep_loop py io end_freq step st = Some (Inr st)"
  by (simp add: sweep_loop.simps [of py io end_freq step st])


lemma sweep_loop_break:
  "curr_freq st \<le> end_freq \<Longrightarrow> sweep_body py io step st = Break st' \<Longrightarrow>
   sweep_loop py io end_freq step st = Some (Inr st')"
  by (simp add: sweep_loop.simps [of py io end_freq step st])

lemma sweep_loop_continue:
  "curr_freq st \<le> end_freq \<Longrightarrow> sweep_body py io step st = Continue st' \<Longrightarrow>
   sweep_loop py io end_freq step st = sweep_loop py io end_freq step st'"
  by (simp add: sweep_loop.simps [of py io end_freq step st])

text \<open>
  C2 (with the last sentence restricted). Whatever sample a pass of the loop reads, the
  pass takes the retry branch exactly when the output frequency is above 1.5 times the
  input frequency, or the input frequency or the input amplitude is above \<open>10\<^sup>1\<^sup>0\<close>. On the
  retry branch nothing is written to the file and the row counter stays, the error
  count goes up by one and the frequency by 2 Hz (the step plays no part). A sample
  whose output frequency is twice a positive input frequency is erroneous.
\<close>

theorem erroneous_sample_step:
  assumes "acquire py io (curr_freq st) (scope st) = Inr (smp, w)"
  shows "(erroneous smp \<longleftrightarrow>
            freq2 smp > 1.5 * freq1 smp \<or> freq1 smp > 10 ^ 10 \<or> ampl1 smp > 10 ^ 10)
       \<and> (erroneous smp \<longrightarrow>
            (\<exists>st'. (sweep_body py io step st = Continue st' \<or> sweep_body py io step st = Break st')
               \<and> fp st' = fp st \<and> counter st' = counter st
               \<and> error_cnt st' = error_cnt st + 1 \<and> curr_freq st' = curr_freq st + 2))
       \<and> (\<not> erroneous smp \<longrightarrow>
            \<not> (\<exists>st'. (sweep_body py io step st = Continue st' \<or> sweep_body py io step st = Break st')
               \<and> error_cnt st' = error_cnt st + 1))
       \<and> (freq2 smp = 2 * freq1 smp \<and> 0 < freq1 smp \<longrightarrow> erroneous smp)"
proof (intro conjI impI)
  show "erroneous smp \<longleftrightarrow>
          freq2 smp > 1.5 * freq1 smp \<or> freq1 smp > 10 ^ 10 \<or> ampl1 smp > 10 ^ 10"
    by (simp add: erroneous_def)
next
  assume "erroneous smp"
  from sweep_body_erroneous [OF assms this, of step]
  show "\<exists>st'. (sweep_body py io step st = Continue st' \<or> sweep_body py io step st = Break st')
               \<and> fp st' = fp st \<and> counter st' = counter st
               \<and> error_cnt st' = error_cnt st + 1 \<and> curr_freq st' = curr_freq st + 2"
    by (cases "error_cnt st + 1 > 4") simp_all
next
  assume "\<not> erroneous smp"
  from sweep_body_valid [OF assms this, of step]
  show "\<not> (\<exists>st'. (sweep_body py io step st = Continue st' \<or> sweep_body py io step st = Break st')
               \<and> error_cnt st' = error_cnt st + 1)"
    by (cases "gain smp") auto
next
  assume "freq2 smp = 2 * freq1 smp \<and> 0 < freq1 smp"
  then show "erroneous smp"
    by (simp add: erroneous_def)
qed

theorem erroneous_sample_step_witness:
  "acquire decimal_py replay 100 (answers ''100'' ''1'' ''200'' ''1'' ''0'')
     = Inr (\<lparr>freq1 = 100, ampl1 = 1, freq2 = 200, ampl2 = 1, phase_diff = 0\<rparr>, [])
   \<and> erroneous \<lparr>freq1 = 100, ampl1 = 1, freq2 = 200, ampl2 = 1, phase_diff = 0\<rparr>
   \<and> sweep_body decimal_py replay 50
        \<lparr>scope = answers ''100'' ''1'' ''200'' ''1'' ''0'', counter = 1, error_cnt = 0,
         curr_freq = 100, fp = header_line, stdout = []\<rparr>
     = Continue \<lparr>scope = [], counter = 1, error_cnt = 1, curr_freq = 102, fp = header_line,
                 stdout = []\<rparr>"
proof -
  let ?st = "\<lparr>scope = answers ''100'' ''1'' ''200'' ''1'' ''0'', counter = 1, error_cnt = 0,
         curr_freq = 100, fp = header_line, stdout = []\<rparr>"
  let ?smp = "\<lparr>freq1 = 100, ampl1 = 1, freq2 = 200, ampl2 = 1, phase_diff = 0\<rparr>"
  have h: "acquire decimal_py replay (curr_freq ?st) (scope ?st) = Inr (?smp, [])"
    using acquire_replay [of decimal_py "''100''" 100 "''1''" 1 "''200''" 200 "''1''" 1 "''0''" 0 100 "[]"]
    by (simp add: decimal_defs)
  from erroneous_sample_step [OF h, of 50] have e: "erroneous ?smp"
    by simp
  have "sweep_body decimal_py replay 50 ?st
     = Continue \<lparr>scope = [], counter = 1, error_cnt = 1, curr_freq = 102, fp = header_line,
                 stdout = []\<rparr>"
    using h e by (simp add: sweep_body_def)
  with h e show ?thesis by simp
qed

text \<open>
  The last sentence of the claim, for any sample with output frequency twice the input
  frequency, fails where the input frequency is not positive: the instrument reads 0 Hz
  on both channels, the test \<^verbatim>\<open>freq2 > 1.5*freq1\<close> is false, and the row is written.
\<close>

theorem doubled_zero_frequency_counterexample:
  "freq2 \<lparr>freq1 = 0, ampl1 = 1, freq2 = 0, ampl2 = 1, phase_diff = 0\<rparr>
     = 2 * freq1 \<lparr>freq1 = 0, ampl1 = 1, freq2 = 0, ampl2 = 1, phase_diff = 0\<rparr>
   \<and> acquire decimal_py replay 0 (answers ''0'' ''1'' ''0'' ''1'' ''0'')
     = Inr (\<lparr>freq1 = 0, ampl1 = 1, freq2 = 0, ampl2 = 1, phase_diff = 0\<rparr>, [])
   \<and> \<not> erroneous \<lparr>freq1 = 0, ampl1 = 1, freq2 = 0, ampl2 = 1, phase_diff = 0\<rparr>
   \<and> sweep_body decimal_py replay 10
        \<lparr>scope = answers ''0'' ''1'' ''0'' ''1'' ''0'', counter = 1, error_cnt = 0,
         curr_freq = 0, fp = header_line, stdout = []\<rparr>
     = Continue \<lparr>scope = [], counter = 2, error_cnt = 0, curr_freq = 10,
                 fp = header_line @ ''0, 1, 0, 1, 0, 0'' @ [newline], stdout = []\<rparr>"
proof -
  have h: "acquire decimal_py replay 0 (answers ''0'' ''1'' ''0'' ''1'' ''0'')
     = Inr (\<lparr>freq1 = 0, ampl1 = 1, freq2 = 0, ampl2 = 1, phase_diff = 0\<rparr>, [])"
    using acquire_replay [of decimal_py "''0''" 0 "''1''" 1 "''0''" 0 "''1''" 1 "''0''" 0 0 "[]"]
    by (simp add: decimal_defs)
  then show ?thesis
    by (simp add: sweep_body_def erroneous_def gain_def row_line_def decimal_defs)
qed

text \<open>
  C9 (with the gain computable). The test on a sample never looks at the output
  amplitude. A sample with output frequency at most 1.5 times the input frequency and
  input frequency and amplitude at most \<open>10\<^sup>1\<^sup>0\<close> is written to the file, however large
  its output amplitude, provided its gain can be computed: the input amplitude is not
  zero and the ratio of the amplitudes is positive.
\<close>

theorem output_amplitude_unchecked:
  assumes "acquire py io (curr_freq st) (scope st) = Inr (smp, w)"
    and "freq2 smp \<le> 1.5 * freq1 smp" and "freq1 smp \<le> 10 ^ 10" and "ampl1 smp \<le> 10 ^ 10"
    and "ampl1 smp \<noteq> 0" and "0 < ampl2 smp / ampl1 smp"
  shows "sweep_body py io step st =
           Continue (st\<lparr>scope := w,
                        fp := fp st @ row_line py smp (20 * log 10 (ampl2 smp / ampl1 smp)),
                        curr_freq := curr_freq st + step,
                        counter := counter st + 1\<rparr>)"
proof -
  from assms(2-4) have "\<not> erroneous smp"
    by (simp add: erroneous_def)
  moreover from assms(5,6) have "gain smp = Inr (20 * log 10 (ampl2 smp / ampl1 smp))"
    by (simp add: gain_def)
  ultimately show ?thesis
    using sweep_body_valid [OF assms(1), of step] by simp
qed

theorem output_amplitude_unchecked_witness:
  "acquire decimal_py replay 100 (answers ''100'' ''2000000000'' ''100'' ''20000000000'' ''0'')
     = Inr (\<lparr>freq1 = 100, ampl1 = 2000000000, freq2 = 100, ampl2 = 20000000000,
             phase_diff = 0\<rparr>, [])
   \<and> (10 :: real) ^ 10 < 20000000000
   \<and> sweep_body decimal_py replay 50
        \<lparr>scope = answers ''100'' ''2000000000'' ''100'' ''20000000000'' ''0'', counter = 1,
         error_cnt = 0, curr_freq = 100, fp = header_line, stdout = []\<rparr>
     = Continue \<lparr>scope = [], counter = 2, error_cnt = 0, curr_freq = 150,
         fp = header_line @ ''100, 2000000000, 100, 20000000000, 0, 20'' @ [newline],
         stdout = []\<rparr>"
proof -
  let ?st = "\<lparr>scope = answers ''100'' ''2000000000'' ''100'' ''20000000000'' ''0'', counter = 1,
         error_cnt = 0, curr_freq = 100, fp = header_line, stdout = []\<rparr>"
  let ?smp = "\<lparr>freq1 = 100, ampl1 = 2000000000, freq2 = 100, ampl2 = 20000000000,
             phase_diff = 0\<rparr>"
  have h: "acquire decimal_py replay (curr_freq ?st) (scope ?st) = Inr (?smp, [])"
    using acquire_replay [of decimal_py "''100''" 100 "''2000000000''" 2000000000 "''100''" 100
        "''20000000000''" 20000000000 "''0''" 0 100 "[]"]
    by (simp add: decimal_defs)
  have "sweep_body decimal_py replay 50 ?st =
           Continue (?st\<lparr>scope := [],
                        fp := fp ?st @ row_line decimal_py ?smp (20 * log 10 (ampl2 ?smp / ampl1 ?smp)),
                        curr_freq := curr_freq ?st + 50,
                        counter := counter ?st + 1\<rparr>)"
    by (rule output_amplitude_unchecked [OF h]) simp_all
  then have "sweep_body decimal_py replay 50 ?st
     = Continue \<lparr>scope = [], counter = 2, error_cnt = 0, curr_freq = 150,
         fp = header_line @ ''100, 2000000000, 100, 20000000000, 0, 20'' @ [newline],
         stdout = []\<rparr>"
    by (simp add: row_line_def decimal_defs)
  with h show ?thesis by simp
qed

text \<open>
  Without the proviso the claim fails: a sample that passes the test with an output
  amplitude above \<open>10\<^sup>1\<^sup>0\<close> and an input amplitude of 0 is not written; the division raises
  and the sweep ends.
\<close>

theorem zero_input_amplitude_unchecked_counterexample:
  "acquire decimal_py replay 100 (answers ''100'' ''0'' ''100'' ''20000000000'' ''0'')
     = Inr (\<lparr>freq1 = 100, ampl1 = 0, freq2 = 100, ampl2 = 20000000000, phase_diff = 0\<rparr>, [])
   \<and> freq2 \<lparr>freq1 = 100, ampl1 = 0, freq2 = 100, ampl2 = 20000000000, phase_diff = 0\<rparr>
       \<le> 1.5 * freq1 \<lparr>freq1 = 100, ampl1 = 0, freq2 = 100, ampl2 = 20000000000, phase_diff = 0\<rparr>
   \<and> sweep_body decimal_py replay 50
        \<lparr>scope = answers ''100'' ''0'' ''100'' ''20000000000'' ''0'', counter = 1,
         error_cnt = 0, curr_freq = 100, fp = header_line, stdout = []\<rparr>
     = Raise ZeroDivisionError
   \<and> sweep_loop decimal_py replay 200 50
        \<lparr>scope = answers ''100'' ''0'' ''100'' ''20000000000'' ''0'', counter = 1,
         error_cnt = 0, curr_freq = 100, fp = header_line, stdout = []\<rparr>
     = Some (Inl ZeroDivisionError)"
proof -
  have h: "acquire decimal_py replay 100 (answers ''100'' ''0'' ''100'' ''20000000000'' ''0'')
     = Inr (\<lparr>freq1 = 100, ampl1 = 0, freq2 = 100, ampl2 = 20000000000, phase_diff = 0\<rparr>, [])"
    using acquire_replay [of decimal_py "''100''" 100 "''0''" 0 "''100''" 100
        "''20000000000''" 20000000000 "''0''" 0 100 "[]"]
    by (simp add: decimal_defs)
  then show ?thesis
    by (simp add: sweep_loop.simps sweep_body_def erroneous_def gain_def)
qed

text \<open>
  C5 (as the code behaves). The sweep has no guard on the sign of the input amplitude.
  An input amplitude that is zero or negative never makes a sample erroneous. A sample
  that passes the test reaches the gain computation whatever its input amplitude: with
  a zero input amplitude the division raises \<^verbatim>\<open>ZeroDivisionError\<close>, with a ratio that is
  not positive the logarithm raises \<^verbatim>\<open>ValueError\<close>, and either exception ends the sweep
  without a retry; otherwise the row is written with the gain of the ratio.
\<close>

theorem gain_without_guard:
  assumes "acquire py io (curr_freq st) (scope st) = Inr (smp, w)"
    and "curr_freq st \<le> end_freq"
  shows "(ampl1 smp \<le> 0 \<longrightarrow>
            (erroneous smp \<longleftrightarrow> freq2 smp > 1.5 * freq1 smp \<or> freq1 smp > 10 ^ 10))
       \<and> (\<not> erroneous smp \<and> ampl1 smp = 0 \<longrightarrow>
            sweep_body py io step st = Raise ZeroDivisionError
            \<and> sweep_loop py io end_freq step st = Some (Inl ZeroDivisionError))
       \<and> (\<not> erroneous smp \<and> ampl1 smp \<noteq> 0 \<and> ampl2 smp / ampl1 smp \<le> 0 \<longrightarrow>
            sweep_body py io step st = Raise ValueError
            \<and> sweep_loop py io end_freq step st = Some (Inl ValueError))
       \<and> (\<not> erroneous smp \<and> ampl1 smp \<noteq> 0 \<and> 0 < ampl2 smp / ampl1 smp \<longrightarrow>
            sweep_body py io step st =
              Continue (st\<lparr>scope := w,
                           fp := fp st @ row_line py smp (20 * log 10 (ampl2 smp / ampl1 smp)),
                           curr_freq := curr_freq st + step,
                           counter := counter st + 1\<rparr>))"
proof -
  have "ampl1 smp \<le> 0 \<longrightarrow>
          (erroneous smp \<longleftrightarrow> freq2 smp > 1.5 * freq1 smp \<or> freq1 smp > 10 ^ 10)"
    by (auto simp: erroneous_def)
  moreover have "\<not> erroneous smp \<Longrightarrow> ampl1 smp = 0 \<Longrightarrow>
            sweep_body py io step st = Raise ZeroDivisionError
            \<and> sweep_loop py io end_freq step st = Some (Inl ZeroDivisionError)"
    using assms(2) sweep_body_valid [OF assms(1), of step]
    by (simp add: gain_def sweep_loop.simps [of py io end_freq step st])
  moreover have "\<not> erroneous smp \<Longrightarrow> ampl1 smp \<noteq> 0 \<Longrightarrow> ampl2 smp / ampl1 smp \<le> 0 \<Longrightarrow>
            sweep_body py io step st = Raise ValueError
            \<and> sweep_loop py io end_freq step st = Some (Inl ValueError)"
    using assms(2) sweep_body_valid [OF assms(1), of step]
    by (simp add: gain_def sweep_loop.simps [of py io end_freq step st])
  moreover have "\<not> erroneous smp \<Longrightarrow> ampl1 smp \<noteq> 0 \<Longrightarrow> 0 < ampl2 smp / ampl1 smp \<Longrightarrow>
            sweep_body py io step st =
              Continue (st\<lparr>scope := w,
                           fp := fp st @ row_line py smp (20 * log 10 (ampl2 smp / ampl1 smp)),
                           curr_freq := curr_freq st + step,
                           counter := counter st + 1\<rparr>)"
    using sweep_body_valid [OF assms(1), of step]
    by (simp add: gain_def)
  ultimately show ?thesis by blast
qed

theorem gain_without_guard_witness:
  "acquire decimal_py replay 100 (answers ''100'' ''0'' ''100'' ''1'' ''0'')
     = Inr (\<lparr>freq1 = 100, ampl1 = 0, freq2 = 100, ampl2 = 1, phase_diff = 0\<rparr>, [])
   \<and> (100 :: real) \<le> 200
   \<and> \<not> erroneous \<lparr>freq1 = 100, ampl1 = 0, freq2 = 100, ampl2 = 1, phase_diff = 0\<rparr>
   \<and> sweep_loop decimal_py replay 200 50
        \<lparr>scope = answers ''100'' ''0'' ''100'' ''1'' ''0'', counter = 1,
         error_cnt = 0, curr_freq = 100, fp = header_line, stdout = []\<rparr>
     = Some (Inl ZeroDivisionError)"
proof -
  let ?st = "\<lparr>scope = answers ''100'' ''0'' ''100'' ''1'' ''0'', counter = 1,
         error_cnt = 0, curr_freq = 100, fp = header_line, stdout = []\<rparr>"
  let ?smp = "\<lparr>freq1 = 100, ampl1 = 0, freq2 = 100, ampl2 = 1, phase_diff = 0\<rparr>"
  have h: "acquire decimal_py replay (curr_freq ?st) (scope ?st) = Inr (?smp, [])"
    using acquire_replay [of decimal_py "''100''" 100 "''0''" 0 "''100''" 100
        "''1''" 1 "''0''" 0 100 "[]"]
    by (simp add: decimal_defs)
  have c: "curr_freq ?st \<le> 200"
    by simp
  have e: "\<not> erroneous ?smp"
    by (simp add: erroneous_def)
  from gain_without_guard [OF h c, of 50] e
  have "sweep_loop decimal_py replay 200 50 ?st = Some (Inl ZeroDivisionError)"
    by simp
  with h e show ?thesis by simp
qed

text \<open>
  The claim that a sample with a non-positive input amplitude is treated as erroneous
  fails for an input amplitude of 0: the sample passes the test and the pass raises.
\<close>

theorem zero_input_amplitude_counterexample:
  "acquire decimal_py replay 100 (answers ''100'' ''0'' ''100'' ''1'' ''0'')
     = Inr (\<lparr>freq1 = 100, ampl1 = 0, freq2 = 100, ampl2 = 1, phase_diff = 0\<rparr>, [])
   \<and> \<not> erroneous \<lparr>freq1 = 100, ampl1 = 0, freq2 = 100, ampl2 = 1, phase_diff = 0\<rparr>
   \<and> sweep_body decimal_py replay 50
        \<lparr>scope = answers ''100'' ''0'' ''100'' ''1'' ''0'', counter = 1,
         error_cnt = 0, curr_freq = 100, fp = header_line, stdout = []\<rparr>
     = Raise ZeroDivisionError"
proof -
  have h: "acquire decimal_py replay 100 (answers ''100'' ''0'' ''100'' ''1'' ''0'')
     = Inr (\<lparr>freq1 = 100, ampl1 = 0, freq2 = 100, ampl2 = 1, phase_diff = 0\<rparr>, [])"
    using acquire_replay [of decimal_py "''100''" 100 "''0''" 0 "''100''" 100
        "''1''" 1 "''0''" 0 100 "[]"]
    by (simp add: decimal_defs)
  then show ?thesis
    by (simp add: sweep_body_def erroneous_def gain_def)
qed

section \<open>Instrument errors\<close>















lemma replicate_unroll: "replicate (numeral k) x = x # replicate (pred_numeral k) x"
  by (simp add: numeral_eq_Suc)






section \<open>The abort of the sweep\<close>

text \<open>
  C3 (with the range the code prints). The error count is kept for the whole sweep: a
  row that is written leaves it as it is, and an erroneous sample adds one to it. The
  erroneous sample that takes the count above 4 ends the loop: the sweep returns
  normally with the file as written so far (the rows accepted before the abort), and
  the last line printed suggests a range whose upper end is the current frequency,
  already moved by the last 2 Hz, less one step.
\<close>

theorem abort_after_five_errors:
  assumes "acquire py io (curr_freq st) (scope st) = Inr (smp, w)"
    and "curr_freq st \<le> end_freq"
  shows "(erroneous smp \<and> error_cnt st + 1 > 4 \<longrightarrow>
            sweep_loop py io end_freq step st =
              Some (Inr (st\<lparr>scope := w, error_cnt := error_cnt st + 1,
                           curr_freq := curr_freq st + 2,
                           stdout := stdout st @
                             [''>> [ERROR] Unable to read signal at '' @
                                fmt2f py (curr_freq st + 2) @ '' Hz!'',
                              ''>> [ERROR] Please modify frequency range and try again...'',
                              ''>> [INFO] Suggested Range: 100Hz - '' @
                                fmt0f py (curr_freq st + 2 - step) @ ''Hz'']\<rparr>)))
       \<and> (erroneous smp \<and> error_cnt st + 1 \<le> 4 \<longrightarrow>
            sweep_loop py io end_freq step st =
              sweep_loop py io end_freq step
                (st\<lparr>scope := w, error_cnt := error_cnt st + 1, curr_freq := curr_freq st + 2\<rparr>))
       \<and> (\<not> erroneous smp \<and> gain smp = Inr g \<longrightarrow>
            sweep_loop py io end_freq step st =
              sweep_loop py io end_freq step
                (st\<lparr>scope := w, fp := fp st @ row_line py smp g,
                    curr_freq := curr_freq st + step, counter := counter st + 1\<rparr>))"
proof (intro conjI impI)
  assume a: "erroneous smp \<and> error_cnt st + 1 > 4"
  with sweep_body_erroneous [OF assms(1), of step]
  have "sweep_body py io step st =
          Break (st\<lparr>scope := w, error_cnt := error_cnt st + 1, curr_freq := curr_freq st + 2,
                     stdout := stdout st @
                       [''>> [ERROR] Unable to read signal at '' @
                          fmt2f py (curr_freq st + 2) @ '' Hz!'',
                        ''>> [ERROR] Please modify frequency range and try again...'',
                        ''>> [INFO] Suggested Range: 100Hz - '' @
                          fmt0f py (curr_freq st + 2 - step) @ ''Hz'']\<rparr>)"
    by simp
  then show "sweep_loop py io end_freq step st =
              Some (Inr (st\<lparr>scope := w, error_cnt := error_cnt st + 1,
                           curr_freq := curr_freq st + 2,
                           stdout := stdout st @
                             [''>> [ERROR] Unable to read signal at '' @
                                fmt2f py (curr_freq st + 2) @ '' Hz!'',
                              ''>> [ERROR] Please modify frequency range and try again...'',
                              ''>> [INFO] Suggested Range: 100Hz - '' @
                                fmt0f py (curr_freq st + 2 - step) @ ''Hz'']\<rparr>))"
    by (rule sweep_loop_break [OF assms(2)])
next
  assume a: "erroneous smp \<and> error_cnt st + 1 \<le> 4"
  with sweep_body_erroneous [OF assms(1), of step]
  have "sweep_body py io step st =
          Continue (st\<lparr>scope := w, error_cnt := error_cnt st + 1,
                        curr_freq := curr_freq st + 2\<rparr>)"
    by simp
  then show "sweep_loop py io end_freq step st =
              sweep_loop py io end_freq step
                (st\<lparr>scope := w, error_cnt := error_cnt st + 1, curr_freq := curr_freq st + 2\<rparr>)"
    by (rule sweep_loop_continue [OF assms(2)])
next
  assume a: "\<not> erroneous smp \<and> gain smp = Inr g"
  with sweep_body_valid [OF assms(1), of step]
  have "sweep_body py io step st =
          Continue (st\<lparr>scope := w, fp := fp st @ row_line py smp g,
                        curr_freq := curr_freq st + step, counter := counter st + 1\<rparr>)"
    by simp
  then show "sweep_loop py io end_freq step st =
              sweep_loop py io end_freq step
                (st\<lparr>scope := w, fp := fp st @ row_line py smp g,
                    curr_freq := curr_freq st + step, counter := counter st + 1\<rparr>)"
    by (rule sweep_loop_continue [OF assms(2)])
qed

theorem abort_after_five_errors_witness:
  "acquire decimal_py replay 158 (answers ''150'' ''1'' ''300'' ''1'' ''0'')
     = Inr (\<lparr>freq1 = 150, ampl1 = 1, freq2 = 300, ampl2 = 1, phase_diff = 0\<rparr>, [])
   \<and> (158 :: real) \<le> 1050
   \<and> erroneous \<lparr>freq1 = 150, ampl1 = 1, freq2 = 300, ampl2 = 1, phase_diff = 0\<rparr>
   \<and> sweep_loop decimal_py replay 1050 100
        \<lparr>scope = answers ''150'' ''1'' ''300'' ''1'' ''0'', counter = 2, error_cnt = 4,
         curr_freq = 158, fp = header_line @ ''50, 1, 50, 1, 0, 0'' @ [newline], stdout = []\<rparr>
     = Some (Inr \<lparr>scope = [], counter = 2, error_cnt = 5, curr_freq = 160,
               fp = header_line @ ''50, 1, 50, 1, 0, 0'' @ [newline],
               stdout = [''>> [ERROR] Unable to read signal at 160 Hz!'',
                         ''>> [ERROR] Please modify frequency range and try again...'',
                         ''>> [INFO] Suggested Range: 100Hz - 60Hz'']\<rparr>)"
proof -
  let ?st = "\<lparr>scope = answers ''150'' ''1'' ''300'' ''1'' ''0'', counter = 2, error_cnt = 4,
         curr_freq = 158, fp = header_line @ ''50, 1, 50, 1, 0, 0'' @ [newline], stdout = []\<rparr>"
  let ?smp = "\<lparr>freq1 = 150, ampl1 = 1, freq2 = 300, ampl2 = 1, phase_diff = 0\<rparr>"
  have h: "acquire decimal_py replay (curr_freq ?st) (scope ?st) = Inr (?smp, [])"
    using acquire_replay [of decimal_py "''150''" 150 "''1''" 1 "''300''" 300 "''1''" 1
        "''0''" 0 158 "[]"]
    by (simp add: decimal_defs)
  have c: "curr_freq ?st \<le> 1050"
    by simp
  have e: "erroneous ?smp"
    by (simp add: erroneous_def)
  from abort_after_five_errors [OF h c, of 100, THEN conjunct1] e
  have "sweep_loop decimal_py replay 1050 100 ?st
     = Some (Inr \<lparr>scope = [], counter = 2, error_cnt = 5, curr_freq = 160,
               fp = header_line @ ''50, 1, 50, 1, 0, 0'' @ [newline],
               stdout = [''>> [ERROR] Unable to read signal at 160 Hz!'',
                         ''>> [ERROR] Please modify frequency range and try again...'',
                         ''>> [INFO] Suggested Range: 100Hz - 60Hz'']\<rparr>)"
    by (simp add: decimal_defs)
  with h e show ?thesis by simp
qed


text \<open>
  The range of the claim, from the start frequency to the last accepted frequency, is
  not the one printed. In a sweep from 50 Hz in steps of 100 Hz whose only accepted
  sample is the one at 50 Hz, the suggested range is "100Hz - 60Hz".
\<close>

theorem suggested_range_counterexample:
  "sweep_frequency decimal_py replay 50 1050 11 five_faults_script
     = Some (Inr \<lparr>scope = [], counter = 2, error_cnt = 5, curr_freq = 160,
               fp = header_line @ ''50, 1, 50, 1, 0, 0'' @ [newline],
               stdout = [''>> [ERROR] Unable to read signal at 160 Hz!'',
                         ''>> [ERROR] Please modify frequency range and try again...'',
                         ''>> [INFO] Suggested Range: 100Hz - 60Hz'']\<rparr>)"
  by (simp add: five_faults_script_def run_defs)

section \<open>The sweep as a whole\<close>

lemma passes_loop:
  "passes py io end_freq step st st' \<Longrightarrow>
   sweep_loop py io end_freq step st = sweep_loop py io end_freq step st'"
  by (induction rule: passes.induct) (simp_all add: sweep_loop_continue)

lemma passes_prepend:
  assumes "passes py io end_freq step st' st''"
    and "curr_freq st \<le> end_freq" and "sweep_body py io step st = Continue st'"
  shows "passes py io end_freq step st st''"
  using assms
proof (induction rule: passes.induct)
  case start
  then show ?case by (blast intro: passes.intros)
next
  case (pass st1 st2)
  then show ?case by (blast intro: passes.pass)
qed

lemma sweep_body_Continue:
  assumes "sweep_body py io step st = Continue st'"
  shows "stdout st' = stdout st \<and>
     (fp st' = fp st \<and> counter st' = counter st \<and> error_cnt st' = error_cnt st + 1
        \<and> curr_freq st' = curr_freq st + 2
      \<or> (\<exists>smp g. gain smp = Inr g \<and> fp st' = fp st @ row_line py smp g
            \<and> counter st' = counter st + 1 \<and> error_cnt st' = error_cnt st
            \<and> curr_freq st' = curr_freq st + step))"
proof (cases "acquire py io (curr_freq st) (scope st)")
  case (Inl e)
  with assms show ?thesis by (simp add: sweep_body_raise)
next
  case (Inr r)
  obtain smp w where r: "r = (smp, w)" by (cases r)
  show ?thesis
  proof (cases "erroneous smp")
    case True
    from sweep_body_erroneous [OF Inr [unfolded r] True, of step] assms show ?thesis
      by (auto split: if_splits)
  next
    case False
    from sweep_body_valid [OF Inr [unfolded r] False, of step] assms show ?thesis
      by (cases "gain smp") auto
  qed
qed

lemma sweep_body_Break:
  assumes "sweep_body py io step st = Break st'"
  shows "fp st' = fp st \<and> counter st' = counter st \<and> error_cnt st' = error_cnt st + 1
     \<and> 4 < error_cnt st'"
proof (cases "acquire py io (curr_freq st) (scope st)")
  case (Inl e)
  with assms show ?thesis by (simp add: sweep_body_raise)
next
  case (Inr r)
  obtain smp w where r: "r = (smp, w)" by (cases r)
  show ?thesis
  proof (cases "erroneous smp")
    case True
    from sweep_body_erroneous [OF Inr [unfolded r] True, of step] assms show ?thesis
      by (auto split: if_splits)
  next
    case False
    from sweep_body_valid [OF Inr [unfolded r] False, of step] assms show ?thesis
      by (cases "gain smp") auto
  qed
qed

lemma passes_rows:
  assumes "passes py io end_freq step st st'"
  shows "\<exists>rows. fp st' = fp st @ concat (map (\<lambda>(smp, g). row_line py smp g) rows)
           \<and> counter st' = counter st + int (length rows)
           \<and> (\<forall>(smp, g) \<in> set rows. gain smp = Inr g)
           \<and> stdout st' = stdout st
           \<and> error_cnt st \<le> error_cnt st'
           \<and> (0 \<le> step \<longrightarrow> curr_freq st + real (length rows) * step \<le> curr_freq st')"
  using assms
proof (induction rule: passes.induct)
  case start
  show ?case by (intro exI [of _ "[]"]) simp
next
  case (pass st1 st2)
  then obtain rows where rows: "fp st1 = fp st @ concat (map (\<lambda>(smp, g). row_line py smp g) rows)"
    "counter st1 = counter st + int (length rows)" "\<forall>(smp, g) \<in> set rows. gain smp = Inr g"
    "stdout st1 = stdout st" "error_cnt st \<le> error_cnt st1"
    "0 \<le> step \<longrightarrow> curr_freq st + real (length rows) * step \<le> curr_freq st1"
    by blast
  from sweep_body_Continue [OF pass.hyps(3)] have out: "stdout st2 = stdout st1"
    and alt: "fp st2 = fp st1 \<and> counter st2 = counter st1 \<and> error_cnt st2 = error_cnt st1 + 1
        \<and> curr_freq st2 = curr_freq st1 + 2
      \<or> (\<exists>smp g. gain smp = Inr g \<and> fp st2 = fp st1 @ row_line py smp g
            \<and> counter st2 = counter st1 + 1 \<and> error_cnt st2 = error_cnt st1
            \<and> curr_freq st2 = curr_freq st1 + step)"
    by blast+
  from alt show ?case
  proof
    assume "fp st2 = fp st1 \<and> counter st2 = counter st1 \<and> error_cnt st2 = error_cnt st1 + 1
        \<and> curr_freq st2 = curr_freq st1 + 2"
    with rows out show ?thesis
      by (intro exI [of _ rows]) auto
  next
    assume "\<exists>smp g. gain smp = Inr g \<and> fp st2 = fp st1 @ row_line py smp g
            \<and> counter st2 = counter st1 + 1 \<and> error_cnt st2 = error_cnt st1
            \<and> curr_freq st2 = curr_freq st1 + step"
    then obtain smp g where new: "gain smp = Inr g" "fp st2 = fp st1 @ row_line py smp g"
      "counter st2 = counter st1 + 1" "error_cnt st2 = error_cnt st1"
      "curr_freq st2 = curr_freq st1 + step"
      by blast
    with rows out show ?thesis
      by (intro exI [of _ "rows @ [(smp, g)]"]) (auto simp: algebra_simps)
  qed
qed


text \<open>
  C10 (for a start frequency below the stop frequency). In a sweep of at least two
  points from a start frequency below the stop frequency, let a pass of the loop read
  an erroneous sample while the error count, this sample included, is at most 4 and the
  current frequency is within 2 Hz of the stop frequency. Then the retry moves the
  frequency past the stop frequency and the loop ends at its test: the sweep returns
  normally, nothing of the abort branch is printed, and the file holds fewer rows than
  the sweep has points.
\<close>

theorem nudge_past_stop:
  assumes "2 \<le> points" and "start_freq < end_freq"
    and "acquire py io start_freq w0 = Inr (smp0, w1)"
    and "passes py io end_freq ((end_freq - start_freq) / real_of_int (points - 1))
           \<lparr>scope = w1, counter = 1, error_cnt = 0, curr_freq = start_freq,
            fp = header_line, stdout = []\<rparr> st"
    and "curr_freq st \<le> end_freq"
    and "acquire py io (curr_freq st) (scope st) = Inr (smp, w)"
    and "erroneous smp" and "error_cnt st + 1 \<le> 4" and "end_freq < curr_freq st + 2"
  shows "sweep_frequency py io start_freq end_freq points w0 =
           Some (Inr (st\<lparr>scope := w, error_cnt := error_cnt st + 1,
                        curr_freq := curr_freq st + 2\<rparr>))
       \<and> stdout st = []
       \<and> (\<exists>rows. fp st = dataset_text py rows \<and> int (length rows) < points)"
proof -
  let ?step = "(end_freq - start_freq) / real_of_int (points - 1)"
  let ?init = "\<lparr>scope = w1, counter = 1, error_cnt = 0, curr_freq = start_freq,
               fp = header_line, stdout = []\<rparr>"
  let ?st' = "st\<lparr>scope := w, error_cnt := error_cnt st + 1, curr_freq := curr_freq st + 2\<rparr>"
  from assms(1,2) have den: "0 < real_of_int (points - 1)" and step: "0 < ?step"
    by simp_all
  have "sweep_body py io ?step st = Continue ?st'"
    using sweep_body_erroneous [OF assms(6,7), of ?step] assms(8) by simp
  then have "sweep_loop py io end_freq ?step st = sweep_loop py io end_freq ?step ?st'"
    by (rule sweep_loop_continue [OF assms(5)])
  also have "\<dots> = Some (Inr ?st')"
    using assms(9) by (intro sweep_loop_done) simp
  finally have "sweep_loop py io end_freq ?step ?init = Some (Inr ?st')"
    using passes_loop [OF assms(4)] by simp
  then have run: "sweep_frequency py io start_freq end_freq points w0 = Some (Inr ?st')"
    using assms(1,3) by (simp add: sweep_frequency_def Let_def)
  from passes_rows [OF assms(4)] step obtain rows where
    rows: "fp st = header_line @ concat (map (\<lambda>(smp, g). row_line py smp g) rows)"
      "stdout st = []" "start_freq + real (length rows) * ?step \<le> curr_freq st"
    by auto
  from rows(3) assms(5) have "real (length rows) * ?step \<le> end_freq - start_freq"
    by linarith
  also have "\<dots> = real_of_int (points - 1) * ?step"
    using den by simp
  finally have "real (length rows) * ?step \<le> real_of_int (points - 1) * ?step" .
  then have "real (length rows) \<le> real_of_int (points - 1)"
    by (rule mult_right_le_imp_le) (rule step)
  then have "int (length rows) < points"
    by linarith
  with rows(1) have "\<exists>rows. fp st = dataset_text py rows \<and> int (length rows) < points"
    unfolding dataset_text_def by blast
  with run rows(2) show ?thesis by blast
qed

theorem nudge_past_stop_witness:
  "(2 :: int) \<le> 2 \<and> (100 :: real) < 200
   \<and> passes decimal_py replay 200 100
        \<lparr>scope = answers ''100'' ''1'' ''100'' ''1'' ''0'' @ answers ''200'' ''1'' ''400'' ''1'' ''0'',
         counter = 1, error_cnt = 0, curr_freq = 100, fp = header_line, stdout = []\<rparr>
        \<lparr>scope = answers ''200'' ''1'' ''400'' ''1'' ''0'',
         counter = 2, error_cnt = 0, curr_freq = 200,
         fp = header_line @ ''100, 1, 100, 1, 0, 0'' @ [newline], stdout = []\<rparr>
   \<and> erroneous \<lparr>freq1 = 200, ampl1 = 1, freq2 = 400, ampl2 = 1, phase_diff = 0\<rparr>
   \<and> (200 :: real) < 200 + 2
   \<and> sweep_frequency decimal_py replay 100 200 2 overshoot_script
       = Some (Inr \<lparr>scope = [], counter = 2, error_cnt = 1, curr_freq = 202,
                 fp = header_line @ ''100, 1, 100, 1, 0, 0'' @ [newline], stdout = []\<rparr>)"
proof -
  let ?bad = "answers ''200'' ''1'' ''400'' ''1'' ''0''"
  let ?init = "\<lparr>scope = answers ''100'' ''1'' ''100'' ''1'' ''0'' @ ?bad,
         counter = 1, error_cnt = 0, curr_freq = 100, fp = header_line, stdout = []\<rparr>"
  let ?st = "\<lparr>scope = ?bad, counter = 2, error_cnt = 0, curr_freq = 200,
         fp = header_line @ ''100, 1, 100, 1, 0, 0'' @ [newline], stdout = []\<rparr>"
  let ?smp = "\<lparr>freq1 = 200, ampl1 = 1, freq2 = 400, ampl2 = 1, phase_diff = 0\<rparr>"
  have p: "(2 :: int) \<le> 2" and o: "(100 :: real) < 200"
    by simp_all
  have prime: "acquire decimal_py replay 100 overshoot_script
      = Inr (\<lparr>freq1 = 100, ampl1 = 1, freq2 = 100, ampl2 = 1, phase_diff = 0\<rparr>, scope ?init)"
    using acquire_replay [of decimal_py "''100''" 100 "''1''" 1 "''100''" 100 "''1''" 1
        "''0''" 0 100 "scope ?init"]
    by (simp add: overshoot_script_def decimal_defs)
  have "sweep_body decimal_py replay 100 ?init = Continue ?st"
    by (simp add: run_defs)
  then have "passes decimal_py replay 200 100 ?init ?st"
    by (intro passes.pass [OF passes.start]) simp_all
  then have ps: "passes decimal_py replay 200 ((200 - 100) / real_of_int (2 - 1))
      \<lparr>scope = scope ?init, counter = 1, error_cnt = 0, curr_freq = 100,
       fp = header_line, stdout = []\<rparr> ?st"
    by simp
  have c: "curr_freq ?st \<le> 200"
    by simp
  have h: "acquire decimal_py replay (curr_freq ?st) (scope ?st) = Inr (?smp, [])"
    using acquire_replay [of decimal_py "''200''" 200 "''1''" 1 "''400''" 400 "''1''" 1
        "''0''" 0 200 "[]"]
    by (simp add: decimal_defs)
  have e: "erroneous ?smp"
    by (simp add: erroneous_def)
  have n: "error_cnt ?st + 1 \<le> 4" and l: "200 < curr_freq ?st + 2"
    by simp_all
  from nudge_past_stop [OF p o prime ps c h e n l]
  have "sweep_frequency decimal_py replay 100 200 2 overshoot_script
       = Some (Inr \<lparr>scope = [], counter = 2, error_cnt = 1, curr_freq = 202,
                 fp = header_line @ ''100, 1, 100, 1, 0, 0'' @ [newline], stdout = []\<rparr>)"
    by simp
  with \<open>passes decimal_py replay 200 100 ?init ?st\<close> e show ?thesis
    by simp
qed


text \<open>
  With equal start and stop frequencies the step is zero and the count of rows is not
  bounded by the number of points: the sweep below has two points, ends by a retry past
  the stop frequency after its first erroneous sample, and has written two rows.
\<close>

theorem stalled_sweep_counterexample:
  "sweep_frequency decimal_py replay 100 100 2 stalled_script
     = Some (Inr \<lparr>scope = [], counter = 3, error_cnt = 1, curr_freq = 102,
               fp = header_line @ ''100, 1, 100, 1, 0, 0'' @ [newline]
                     @ ''100, 1, 100, 1, 0, 0'' @ [newline],
               stdout = []\<rparr>)"
  by (simp add: stalled_script_def run_defs)

lemma fault_free_loop:
  fixes step :: real and n :: nat
  assumes step_pos: "0 < step"
    and last: "start_freq + real (n - 1) * step \<le> end_freq"
    and past: "end_freq < start_freq + real n * step"
    and good: "\<forall>i < n. acquire py io (start_freq + real i * step) (w i) = Inr (smps i, w (Suc i))
                 \<and> \<not> erroneous (smps i) \<and> gain (smps i) = Inr (g i)"
  shows "k \<le> n \<Longrightarrow> scope st = w k \<Longrightarrow> curr_freq st = start_freq + real k * step \<Longrightarrow>
         sweep_loop py io end_freq step st =
           Some (Inr (st\<lparr>scope := w n,
                        fp := fp st @ concat (map (\<lambda>i. row_line py (smps i) (g i)) [k..<n]),
                        curr_freq := start_freq + real n * step,
                        counter := counter st + int (n - k)\<rparr>))"
proof (induction "n - k" arbitrary: k st)
  case 0
  then have k: "k = n" by simp
  with 0 past have "\<not> curr_freq st \<le> end_freq" by simp
  then have "sweep_loop py io end_freq step st = Some (Inr st)"
    by (rule sweep_loop_done)
  with k 0 show ?case by simp
next
  case (Suc d)
  then have k: "k < n" by simp
  let ?st' = "st\<lparr>scope := w (Suc k), fp := fp st @ row_line py (smps k) (g k),
                 curr_freq := curr_freq st + step, counter := counter st + 1\<rparr>"
  from k have "real k \<le> real (n - 1)" by simp
  then have "real k * step \<le> real (n - 1) * step"
    using step_pos by (simp add: mult_right_mono)
  with last Suc.prems(3) have le: "curr_freq st \<le> end_freq" by simp
  from good k Suc.prems(2,3)
  have acq: "acquire py io (curr_freq st) (scope st) = Inr (smps k, w (Suc k))"
    and ok: "\<not> erroneous (smps k)" and gk: "gain (smps k) = Inr (g k)"
    by simp_all
  have "sweep_body py io step st = Continue ?st'"
    using sweep_body_valid [OF acq ok, of step] gk by simp
  then have "sweep_loop py io end_freq step st = sweep_loop py io end_freq step ?st'"
    by (rule sweep_loop_continue [OF le])
  also have "\<dots> = Some (Inr (?st'\<lparr>scope := w n,
                        fp := fp ?st' @ concat (map (\<lambda>i. row_line py (smps i) (g i)) [Suc k..<n]),
                        curr_freq := start_freq + real n * step,
                        counter := counter ?st' + int (n - Suc k)\<rparr>))"
  proof (rule Suc.hyps(1))
    show "d = n - Suc k" using Suc.hyps(2) by simp
    show "Suc k \<le> n" using k by simp
    show "scope ?st' = w (Suc k)" by simp
    show "curr_freq ?st' = start_freq + real (Suc k) * step"
      using Suc.prems(3) by (simp add: algebra_simps)
  qed
  also have "\<dots> = Some (Inr (st\<lparr>scope := w n,
                        fp := fp st @ concat (map (\<lambda>i. row_line py (smps i) (g i)) [k..<n]),
                        curr_freq := start_freq + real n * step,
                        counter := counter st + int (n - k)\<rparr>))"
    using k by (simp add: upt_conv_Cons)
  finally show ?case .
qed


text \<open>
  The sweep in exact arithmetic, under the conditions the code leaves to its caller and
  to the instrument. Take a sweep of at least two points from a start frequency below
  the stop frequency, whose acquisitions all succeed, at the frequencies start,
  start + step, ..., with samples that are not erroneous and have a gain (a non-zero
  input amplitude and a positive ratio of amplitudes). With sums that do not round it
  returns with one row per point in the file, the row of each sample with the gain
  20 log10 of its amplitude ratio, in the order of the driven frequencies, with no
  error counted and nothing of the abort branch printed.
\<close>

lemma exact_sweep_rows:
  fixes points :: int
  assumes "2 \<le> points" and "start_freq < end_freq"
    and "step = (end_freq - start_freq) / real_of_int (points - 1)"
    and "acquire py io start_freq w0 = Inr (smp0, w 0)"
    and "\<forall>i < nat points.
           acquire py io (start_freq + real i * step) (w i) = Inr (smps i, w (Suc i))
           \<and> \<not> erroneous (smps i)
           \<and> ampl1 (smps i) \<noteq> 0 \<and> 0 < ampl2 (smps i) / ampl1 (smps i)"
  shows "\<exists>st rows.
           sweep_frequency py io start_freq end_freq points w0 = Some (Inr st)
         \<and> fp st = dataset_text py rows
         \<and> int (length rows) = points
         \<and> (\<forall>i < nat points.
               rows ! i = (smps i, 20 * log 10 (ampl2 (smps i) / ampl1 (smps i))))
         \<and> counter st = 1 + points \<and> error_cnt st = 0 \<and> stdout st = []
         \<and> ((\<forall>i < nat points. freq1 (smps i) = start_freq + real i * step)
              \<longrightarrow> sorted (map (freq1 \<circ> fst) rows))"
proof -
  define n where "n = nat points"
  define g where "g = (\<lambda>i. 20 * log 10 (ampl2 (smps i) / ampl1 (smps i)))"
  define rows where "rows = map (\<lambda>i. (smps i, g i)) [0..<n]"
  let ?init = "\<lparr>scope = w 0, counter = 1, error_cnt = 0, curr_freq = start_freq,
                fp = header_line, stdout = []\<rparr>"
  from assms(1) have n: "2 \<le> n" "real_of_int (points - 1) = real (n - 1)" "int n = points"
    by (simp_all add: n_def)
  from n(1) have den: "0 < real (n - 1)"
    by simp
  have step_eq: "step = (end_freq - start_freq) / real (n - 1)"
    unfolding assms(3) n(2) ..
  from den assms(2) have step: "0 < step"
    unfolding step_eq by simp
  from den have span: "real (n - 1) * step = end_freq - start_freq"
    unfolding step_eq by simp
  have last: "start_freq + real (n - 1) * step \<le> end_freq"
    using span by simp
  from n(1) obtain m where m: "n = Suc m"
    by (cases n) auto
  have "real (Suc m) * step = real m * step + step"
    by (simp add: algebra_simps)
  moreover have "real m * step = end_freq - start_freq"
    using span by (simp add: m)
  ultimately have "real n * step = end_freq - start_freq + step"
    by (simp only: m)
  with step have past: "end_freq < start_freq + real n * step"
    by simp
  have good: "\<forall>i < n. acquire py io (start_freq + real i * step) (w i) = Inr (smps i, w (Suc i))
                 \<and> \<not> erroneous (smps i) \<and> gain (smps i) = Inr (g i)"
  proof (intro allI impI)
    fix i assume "i < n"
    with assms(5) have i: "acquire py io (start_freq + real i * step) (w i) = Inr (smps i, w (Suc i))"
      "\<not> erroneous (smps i)" "ampl1 (smps i) \<noteq> 0" "0 < ampl2 (smps i) / ampl1 (smps i)"
      by (simp_all add: n_def)
    from i(3,4) have "gain (smps i) = Inr (g i)"
      by (simp add: gain_def g_def)
    with i(1,2) show "acquire py io (start_freq + real i * step) (w i) = Inr (smps i, w (Suc i))
                 \<and> \<not> erroneous (smps i) \<and> gain (smps i) = Inr (g i)"
      by simp
  qed
  let ?final = "?init\<lparr>scope := w n,
                   fp := fp ?init @ concat (map (\<lambda>i. row_line py (smps i) (g i)) [0..<n]),
                   curr_freq := start_freq + real n * step,
                   counter := counter ?init + int (n - 0)\<rparr>"
  have "sweep_loop py io end_freq step ?init = Some (Inr ?final)"
    by (rule fault_free_loop [OF step last past good]) simp_all
  then have run: "sweep_frequency py io start_freq end_freq points w0 = Some (Inr ?final)"
    using assms(1,3,4) by (simp add: sweep_frequency_def)
  have written: "fp ?final = dataset_text py rows"
    by (simp add: dataset_text_def rows_def comp_def)
  have len: "int (length rows) = points"
    by (simp add: rows_def n(3))
  have nth: "\<forall>i < nat points. rows ! i = (smps i, 20 * log 10 (ampl2 (smps i) / ampl1 (smps i)))"
    by (simp add: rows_def n_def g_def)
  have mono: "sorted (map (freq1 \<circ> fst) rows)"
    if read: "\<forall>i < nat points. freq1 (smps i) = start_freq + real i * step"
  proof -
    have "freq1 (smps i) \<le> freq1 (smps j)" if "i \<le> j" "j < n" for i j
    proof -
      from that have "real i * step \<le> real j * step"
        using step by (simp add: mult_right_mono)
      with that read show ?thesis by (simp add: n_def)
    qed
    then show ?thesis
      by (simp add: rows_def sorted_iff_nth_mono)
  qed
  from run written len nth mono n(3) show ?thesis
    by (intro exI [of _ ?final] exI [of _ rows]) simp
qed

lemma exact_sweep_rows_example:
  "(2 :: int) \<le> 2 \<and> (100 :: real) < 200
   \<and> acquire decimal_py replay 100 two_point_script
       = Inr (\<lparr>freq1 = 100, ampl1 = 1, freq2 = 100, ampl2 = 1, phase_diff = 0\<rparr>,
              answers ''100'' ''1'' ''100'' ''10'' ''0'' @ answers ''200'' ''1'' ''200'' ''1'' ''90'')
   \<and> acquire decimal_py replay 100
         (answers ''100'' ''1'' ''100'' ''10'' ''0'' @ answers ''200'' ''1'' ''200'' ''1'' ''90'')
       = Inr (\<lparr>freq1 = 100, ampl1 = 1, freq2 = 100, ampl2 = 10, phase_diff = 0\<rparr>,
              answers ''200'' ''1'' ''200'' ''1'' ''90'')
   \<and> acquire decimal_py replay 200 (answers ''200'' ''1'' ''200'' ''1'' ''90'')
       = Inr (\<lparr>freq1 = 200, ampl1 = 1, freq2 = 200, ampl2 = 1, phase_diff = 90\<rparr>, [])
   \<and> (\<exists>st. sweep_frequency decimal_py replay 100 200 2 two_point_script = Some (Inr st)
          \<and> fp st = header_line @ ''100, 1, 100, 10, 0, 20'' @ [newline]
                       @ ''200, 1, 200, 1, 90, 0'' @ [newline]
          \<and> counter st = 3 \<and> error_cnt st = 0 \<and> stdout st = [])"
proof -
  let ?a = "\<lparr>freq1 = 100, ampl1 = 1, freq2 = 100, ampl2 = 10, phase_diff = 0\<rparr>"
  let ?b = "\<lparr>freq1 = 200, ampl1 = 1, freq2 = 200, ampl2 = 1, phase_diff = 90\<rparr>"
  let ?wa = "answers ''100'' ''1'' ''100'' ''10'' ''0'' @ answers ''200'' ''1'' ''200'' ''1'' ''90''"
  let ?wb = "answers ''200'' ''1'' ''200'' ''1'' ''90''"
  define w :: "nat \<Rightarrow> string list" where "w = (\<lambda>i. if i = 0 then ?wa else if i = 1 then ?wb else [])"
  define smps :: "nat \<Rightarrow> sample" where "smps = (\<lambda>i. if i = 0 then ?a else ?b)"
  have p: "(2 :: int) \<le> 2" and o: "(100 :: real) < 200"
    and s: "(100 :: real) = (200 - 100) / real_of_int (2 - 1)"
    by simp_all
  have h0: "acquire decimal_py replay 100 two_point_script
       = Inr (\<lparr>freq1 = 100, ampl1 = 1, freq2 = 100, ampl2 = 1, phase_diff = 0\<rparr>, ?wa)"
    by (simp add: two_point_script_def run_defs)
  have ha: "acquire decimal_py replay 100 ?wa = Inr (?a, ?wb)"
    by (simp add: run_defs)
  have hb: "acquire decimal_py replay 200 ?wb = Inr (?b, [])"
    by (simp add: run_defs)
  have good: "\<forall>i < nat 2.
           acquire decimal_py replay (100 + real i * 100) (w i) = Inr (smps i, w (Suc i))
           \<and> \<not> erroneous (smps i)
           \<and> ampl1 (smps i) \<noteq> 0 \<and> 0 < ampl2 (smps i) / ampl1 (smps i)"
  proof (intro allI impI)
    fix i :: nat assume "i < nat 2"
    then consider "i = 0" | "i = 1" by fastforce
    then show "acquire decimal_py replay (100 + real i * 100) (w i) = Inr (smps i, w (Suc i))
           \<and> \<not> erroneous (smps i)
           \<and> ampl1 (smps i) \<noteq> 0 \<and> 0 < ampl2 (smps i) / ampl1 (smps i)"
      using ha hb by cases (simp_all add: w_def smps_def erroneous_def)
  qed
  from exact_sweep_rows [OF p o s h0 [folded w_def [THEN fun_cong, of 0, simplified]] good]
  obtain st rows where st: "sweep_frequency decimal_py replay 100 200 2 two_point_script = Some (Inr st)"
    "fp st = dataset_text decimal_py rows" "int (length rows) = 2"
    "\<forall>i < nat 2. rows ! i = (smps i, 20 * log 10 (ampl2 (smps i) / ampl1 (smps i)))"
    "counter st = 1 + 2" "error_cnt st = 0" "stdout st = []"
    by blast
  from st(3) obtain r0 r1 where rows: "rows = [r0, r1]"
    by (cases rows; cases "tl rows") auto
  from st(4) [rule_format, of 0] st(4) [rule_format, of 1] rows
  have "rows = [(?a, 20), (?b, 0)]"
    by (simp add: smps_def)
  with st(2) have "fp st = header_line @ ''100, 1, 100, 10, 0, 20'' @ [newline]
                       @ ''200, 1, 200, 1, 90, 0'' @ [newline]"
    by (simp add: dataset_text_def row_line_def decimal_defs)
  with st(1,5,6,7) h0 ha hb show ?thesis
    by simp
qed


text \<open>
  The code checks neither the plan nor the order of the readings: a sweep of two points
  from 10 Hz down to 5 Hz never enters the loop and records no row, and a sweep whose
  instrument reads 100 Hz and then 50 Hz on its input records these in that order.
\<close>

lemma unchecked_plan_and_readings:
  "(2 :: int) \<le> 2
   \<and> sweep_frequency decimal_py replay 10 5 2 (answers ''10'' ''1'' ''10'' ''1'' ''0'')
       = Some (Inr \<lparr>scope = [], counter = 1, error_cnt = 0, curr_freq = 10,
                 fp = header_line, stdout = []\<rparr>)
   \<and> sweep_frequency decimal_py replay 100 200 2 wandering_script
       = Some (Inr \<lparr>scope = [], counter = 3, error_cnt = 0, curr_freq = 300,
                 fp = header_line @ ''100, 1, 100, 1, 0, 0'' @ [newline]
                       @ ''50, 1, 50, 1, 0, 0'' @ [newline],
                 stdout = []\<rparr>)
   \<and> \<not> (100 :: real) \<le> 50"
  by (simp add: wandering_script_def run_defs)


section \<open>The number of rows of a sweep in binary64 arithmetic\<close>

lemmas double_defs = double_def round_half_even_def ulp_def ulp_up.simps ulp_down.simps

lemmas run_fl_defs = sweep_frequency_fl_def sweep_loop_fl.simps sweep_body_fl_def erroneous_fl_def
  gain_fl_def binary64_def double_defs row_line_def acquire_replay_eq acquire_replay_last
  and_then_def float_py_def decimal_defs

text \<open>Rounding to the nearest float, ties to even, at a few known values.\<close>

lemma double_values:
  "double (1 + 1 / 2 ^ 53) = 1"
  "double (1 + 3 / 2 ^ 53) = 1 + 1 / 2 ^ 51"
  "double (- (1 / 10)) = - (3602879701896397 / 36028797018963968)"
  "double (1 / 3) = 6004799503160661 / 18014398509481984"
  "double 150 = 150"
  by (simp_all add: double_defs)

text \<open>With \<open>exact\<close> for the float operations, the rounded sweep is the sweep above.\<close>

lemma erroneous_fl_exact: "erroneous_fl exact smp = erroneous smp"
  by (simp add: erroneous_fl_def erroneous_def exact_def)

lemma gain_fl_exact: "gain_fl exact smp = gain smp"
  by (simp add: gain_fl_def gain_def exact_def)

lemma rnd_exact: "rnd exact x = x"
  by (simp add: exact_def)

lemma sweep_body_fl_exact: "sweep_body_fl exact py io step st = sweep_body py io step st"
  unfolding sweep_body_fl_def sweep_body_def erroneous_fl_exact gain_fl_exact rnd_exact ..

lemma sweep_loop_to_fl:
  assumes "sweep_loop py io end_freq step st = Some r"
  shows "sweep_loop_fl exact py io end_freq step st = Some r"
proof (rule sweep_loop.raw_induct
    [where P = "\<lambda>py io end_freq step st r. sweep_loop_fl exact py io end_freq step st = Some r",
     OF _ assms])
  fix loop :: "pylib \<Rightarrow> 'w visa \<Rightarrow> real \<Rightarrow> real \<Rightarrow> 'w sweep \<Rightarrow> (exc + 'w sweep) option"
    and py io end_freq step st r
  assume IH: "\<And>py io end_freq step st r.
      loop py io end_freq step st = Some r \<Longrightarrow> sweep_loop_fl exact py io end_freq step st = Some r"
    and unfolded: "(if curr_freq st \<le> end_freq
      then case sweep_body py io step st of Raise e \<Rightarrow> Some (Inl e)
           | Break st' \<Rightarrow> Some (Inr st')
           | Continue st' \<Rightarrow> loop py io end_freq step st'
      else Some (Inr st)) = Some r"
  show "sweep_loop_fl exact py io end_freq step st = Some r"
  proof (cases "curr_freq st \<le> end_freq")
    case False
    with unfolded show ?thesis
      by (subst sweep_loop_fl.simps) simp
  next
    case True
    show ?thesis
    proof (cases "sweep_body py io step st")
      case (Continue st')
      with True unfolded have "loop py io end_freq step st' = Some r" by simp
      then have "sweep_loop_fl exact py io end_freq step st' = Some r" by (rule IH)
      with True Continue show ?thesis
        by (subst sweep_loop_fl.simps) (simp add: sweep_body_fl_exact)
    qed (use True unfolded in \<open>subst sweep_loop_fl.simps, simp add: sweep_body_fl_exact\<close>)+
  qed
qed

lemma sweep_loop_from_fl:
  assumes "sweep_loop_fl exact py io end_freq step st = Some r"
  shows "sweep_loop py io end_freq step st = Some r"
proof -
  have "exact = exact \<longrightarrow> sweep_loop py io end_freq step st = Some r"
  proof (rule sweep_loop_fl.raw_induct
    [where P = "\<lambda>fa py io end_freq step st r.
                 fa = exact \<longrightarrow> sweep_loop py io end_freq step st = Some r",
     OF _ assms])
    fix loop :: "floats \<Rightarrow> pylib \<Rightarrow> 'w visa \<Rightarrow> real \<Rightarrow> real \<Rightarrow> 'w sweep \<Rightarrow> (exc + 'w sweep) option"
      and fa py io end_freq step st r
    assume IH: "\<And>fa py io end_freq step st r.
        loop fa py io end_freq step st = Some r \<Longrightarrow>
        fa = exact \<longrightarrow> sweep_loop py io end_freq step st = Some r"
      and unfolded: "(if curr_freq st \<le> end_freq
        then case sweep_body_fl fa py io step st of Raise e \<Rightarrow> Some (Inl e)
             | Break st' \<Rightarrow> Some (Inr st')
             | Continue st' \<Rightarrow> loop fa py io end_freq step st'
        else Some (Inr st)) = Some r"
    show "fa = exact \<longrightarrow> sweep_loop py io end_freq step st = Some r"
    proof
      assume fa: "fa = exact"
      show "sweep_loop py io end_freq step st = Some r"
      proof (cases "curr_freq st \<le> end_freq")
        case False
        with unfolded show ?thesis
          by (subst sweep_loop.simps) simp
      next
        case True
        show ?thesis
        proof (cases "sweep_body py io step st")
          case (Continue st')
          with True unfolded fa have "loop fa py io end_freq step st' = Some r"
            by (simp add: sweep_body_fl_exact)
          from IH [OF this] fa have "sweep_loop py io end_freq step st' = Some r" by simp
          with True Continue show ?thesis
            by (subst sweep_loop.simps) simp
        qed (use True unfolded fa in \<open>subst sweep_loop.simps, simp add: sweep_body_fl_exact\<close>)+
      qed
    qed
  qed
  then show ?thesis by simp
qed

lemma sweep_loop_fl_exact:
  "sweep_loop_fl exact py io end_freq step st = sweep_loop py io end_freq step st"
proof (cases "sweep_loop py io end_freq step st")
  case None
  then show ?thesis
    using sweep_loop_from_fl [of py io end_freq step st]
    by (cases "sweep_loop_fl exact py io end_freq step st") auto
next
  case (Some r)
  then show ?thesis by (simp add: sweep_loop_to_fl)
qed

lemma sweep_frequency_fl_exact:
  "sweep_frequency_fl exact py io start_freq end_freq points w
     = sweep_frequency py io start_freq end_freq points w"
  unfolding sweep_frequency_fl_def sweep_frequency_def sweep_loop_fl_exact rnd_exact ..


text \<open>
  C1. The number of recorded rows of a fault-free sweep is not always the number of
  points. A sweep of 24 points from 100.0 Hz to 10000.0 Hz has the step
  \<open>double (9900 / 23)\<close>, a little above 9900 / 23, and the rounded running sum
  \<^verbatim>\<open>curr_freq += step\<close> reaches 10000.000000000004 after 23 additions, which is the
  value \<open>2748779069440001 / 274877906944\<close>. The test \<^verbatim>\<open>curr_freq <= end_freq\<close> then
  fails, and the sweep returns after 23 passes with 23 rows in the file: the point at
  10000 Hz is never driven, although every acquisition succeeded and no sample was
  erroneous (the error count is 0). With sums that do not round, the same sweep on the
  same instrument makes its 24 passes and records 24 rows.
\<close>

theorem last_point_lost:
  "sweep_frequency_fl binary64 decimal_py replay 100 10000 24 steady_script
     = Some (Inr \<lparr>scope = answers ''100'' ''1'' ''100'' ''1'' ''0'', counter = 24, error_cnt = 0,
               curr_freq = 2748779069440001 / 274877906944,
               fp = header_line @ concat (replicate 23 (''100, 1, 100, 1, 0, 0'' @ [newline])),
               stdout = []\<rparr>)
   \<and> sweep_frequency_fl exact decimal_py replay 100 10000 24 steady_script
     = Some (Inr \<lparr>scope = [], counter = 25, error_cnt = 0,
               curr_freq = 239900 / 23,
               fp = header_line @ concat (replicate 24 (''100, 1, 100, 1, 0, 0'' @ [newline])),
               stdout = []\<rparr>)"
proof
  show "sweep_frequency_fl binary64 decimal_py replay 100 10000 24 steady_script
     = Some (Inr \<lparr>scope = answers ''100'' ''1'' ''100'' ''1'' ''0'', counter = 24, error_cnt = 0,
               curr_freq = 2748779069440001 / 274877906944,
               fp = header_line @ concat (replicate 23 (''100, 1, 100, 1, 0, 0'' @ [newline])),
               stdout = []\<rparr>)"
    by (simp add: steady_script_def run_fl_defs replicate_unroll)
  show "sweep_frequency_fl exact decimal_py replay 100 10000 24 steady_script
     = Some (Inr \<lparr>scope = [], counter = 25, error_cnt = 0,
               curr_freq = 239900 / 23,
               fp = header_line @ concat (replicate 24 (''100, 1, 100, 1, 0, 0'' @ [newline])),
               stdout = []\<rparr>)"
    unfolding sweep_frequency_fl_exact
    by (simp add: steady_script_def run_defs replicate_unroll)
qed


lemma ends_at_now:
  "\<not> curr_freq st \<le> end_freq \<Longrightarrow> ends_at py io end_freq step st (Inr st)"
  "curr_freq st \<le> end_freq \<Longrightarrow> sweep_body py io step st = Raise e \<Longrightarrow>
     ends_at py io end_freq step st (Inl e)"
  "curr_freq st \<le> end_freq \<Longrightarrow> sweep_body py io step st = Break st' \<Longrightarrow>
     ends_at py io end_freq step st (Inr st')"
  unfolding ends_at_def by (blast intro: passes.start)+

lemma ends_at_later:
  assumes "curr_freq st \<le> end_freq" and "sweep_body py io step st = Continue st'"
    and "ends_at py io end_freq step st' r"
  shows "ends_at py io end_freq step st r"
proof -
  from assms(3) obtain st1 where st1: "passes py io end_freq step st' st1"
    and fin: "\<not> curr_freq st1 \<le> end_freq \<and> r = Inr st1
            \<or> curr_freq st1 \<le> end_freq \<and>
               ((\<exists>e. sweep_body py io step st1 = Raise e \<and> r = Inl e)
                \<or> (\<exists>st'. sweep_body py io step st1 = Break st' \<and> r = Inr st'))"
    unfolding ends_at_def by blast
  from passes_prepend [OF st1 assms(1,2)] have "passes py io end_freq step st st1" .
  with fin show ?thesis
    unfolding ends_at_def by blast
qed

lemma sweep_loop_final:
  assumes "sweep_loop py io end_freq step st = Some r"
  shows "ends_at py io end_freq step st r"
proof (rule sweep_loop.raw_induct [where P = ends_at, OF _ assms])
  fix loop :: "pylib \<Rightarrow> 'w visa \<Rightarrow> real \<Rightarrow> real \<Rightarrow> 'w sweep \<Rightarrow> (exc + 'w sweep) option"
    and py io end_freq step st r
  assume IH: "\<And>py io end_freq step st r.
      loop py io end_freq step st = Some r \<Longrightarrow> ends_at py io end_freq step st r"
    and unfolded: "(if curr_freq st \<le> end_freq
      then case sweep_body py io step st of Raise e \<Rightarrow> Some (Inl e)
           | Break st' \<Rightarrow> Some (Inr st')
           | Continue st' \<Rightarrow> loop py io end_freq step st'
      else Some (Inr st)) = Some r"
  show "ends_at py io end_freq step st r"
  proof (cases "curr_freq st \<le> end_freq")
    case False
    with unfolded have "r = Inr st" by simp
    with False show ?thesis by (simp add: ends_at_now)
  next
    case True
    show ?thesis
    proof (cases "sweep_body py io step st")
      case (Raise e)
      with True unfolded have "r = Inl e" by simp
      with True Raise show ?thesis by (simp add: ends_at_now)
    next
      case (Break st')
      with True unfolded have "r = Inr st'" by simp
      with True Break show ?thesis by (simp add: ends_at_now)
    next
      case (Continue st')
      with True unfolded have "loop py io end_freq step st' = Some r" by simp
      then have "ends_at py io end_freq step st' r" by (rule IH)
      with True Continue show ?thesis by (rule ends_at_later)
    qed
  qed
qed


lemma sweep_loop_rows:
  assumes "sweep_loop py io end_freq step st = Some (Inr st')"
  shows "\<exists>rows. fp st' = fp st @ concat (map (\<lambda>(smp, g). row_line py smp g) rows)
           \<and> counter st' = counter st + int (length rows)
           \<and> (\<forall>(smp, g) \<in> set rows. gain smp = Inr g)"
proof -
  from sweep_loop_final [OF assms] obtain st1 where st1: "passes py io end_freq step st st1"
    and fin: "st' = st1 \<or> (\<exists>st2. sweep_body py io step st1 = Break st2 \<and> st' = st2)"
    unfolding ends_at_def by blast
  from fin have same: "fp st' = fp st1" "counter st' = counter st1"
    using sweep_body_Break [of py io step st1 st'] by blast+
  from passes_rows [OF st1] obtain rows where
    "fp st1 = fp st @ concat (map (\<lambda>(smp, g). row_line py smp g) rows)"
    "counter st1 = counter st + int (length rows)" "\<forall>(smp, g) \<in> set rows. gain smp = Inr g"
    by blast
  with same show ?thesis
    by (intro exI [of _ rows]) simp
qed

section \<open>Reading back what the sweep wrote\<close>

lemma find_sep_absent: "CHR '','' \<notin> set a \<Longrightarrow> find_py '', '' a = None"
  by (induction a) auto

lemma find_sep_first:
  "CHR '','' \<notin> set a \<Longrightarrow> find_py '', '' (a @ '', '' @ rest) = Some (length a)"
  by (induction a) auto

lemma split_last: "CHR '','' \<notin> set a \<Longrightarrow> split_py '', '' a = [a]"
  by (subst split_py.simps) (simp add: find_sep_absent)

lemma split_field:
  "CHR '','' \<notin> set a \<Longrightarrow> split_py '', '' (a @ '', '' @ rest) = a # split_py '', '' rest"
  using find_sep_first [of a rest]
  by (subst split_py.simps) simp

lemma dropWhile_no_newline:
  "newline \<notin> set xs \<Longrightarrow> dropWhile (\<lambda>c. c = newline) (xs @ ys) = xs @ ys \<or> xs = []"
  by (cases xs) auto

lemma strip_newlines_line:
  assumes "newline \<notin> set body"
  shows "strip_newlines (body @ [newline]) = body"
proof (cases "body = []")
  case True
  then show ?thesis by (simp add: strip_newlines_def)
next
  case False
  with dropWhile_no_newline [OF assms, of "[newline]"]
  have front: "dropWhile (\<lambda>c. c = newline) (body @ [newline]) = body @ [newline]"
    by simp
  from assms have "newline \<notin> set (rev body)"
    by simp
  from dropWhile_no_newline [OF this, of "[]"] False
  have "dropWhile (\<lambda>c. c = newline) (rev body) = rev body"
    by simp
  with front show ?thesis
    by (simp add: strip_newlines_def)
qed

lemma file_lines_line:
  "newline \<notin> set body \<Longrightarrow> file_lines (body @ [newline] @ rest) = (body @ [newline]) # file_lines rest"
  by (induction body) auto


lemma row_line_body: "row_line py smp g = row_body py smp g @ [newline]"
  by (simp add: row_line_def row_body_def)

lemma parse_row_line:
  assumes "\<forall>x \<in> set (row_values (smp, g)). prints_back py x"
  shows "parse_line py (row_line py smp g) = Some (freq1 smp, phase_diff smp, g)"
proof -
  from assms have p: "prints_back py (freq1 smp)" "prints_back py (ampl1 smp)"
    "prints_back py (freq2 smp)" "prints_back py (ampl2 smp)"
    "prints_back py (phase_diff smp)" "prints_back py g"
    by (simp_all add: row_values_def)
  then have "newline \<notin> set (row_body py smp g)"
    by (simp add: row_body_def prints_back_def newline_def)
  then have "strip_newlines (row_line py smp g) = row_body py smp g"
    unfolding row_line_body by (rule strip_newlines_line)
  moreover from p have c: "CHR '','' \<notin> set (str_float py (freq1 smp))"
    "CHR '','' \<notin> set (str_float py (ampl1 smp))" "CHR '','' \<notin> set (str_float py (freq2 smp))"
    "CHR '','' \<notin> set (str_float py (ampl2 smp))" "CHR '','' \<notin> set (str_float py (phase_diff smp))"
    "CHR '','' \<notin> set (str_float py g)"
    by (simp_all add: prints_back_def)
  have "split_py '', '' (row_body py smp g) =
      [str_float py (freq1 smp), str_float py (ampl1 smp), str_float py (freq2 smp),
       str_float py (ampl2 smp), str_float py (phase_diff smp), str_float py g]"
    unfolding row_body_def split_field [OF c(1)] split_field [OF c(2)] split_field [OF c(3)]
      split_field [OF c(4)] split_field [OF c(5)] split_last [OF c(6)] ..
  ultimately show ?thesis
    using p by (simp add: parse_line_def prints_back_def)
qed

lemma parse_header_line:
  "to_float py ''CH1_FREQ [Hz]'' = None \<Longrightarrow> parse_line py header_line = None"
  by (simp add: parse_line_def header_line_def newline_def strip_newlines_def split_py.simps)

lemma file_lines_rows:
  assumes "\<forall>r \<in> set rows. \<forall>x \<in> set (row_values r). prints_back py x"
  shows "file_lines (concat (map (\<lambda>(smp, g). row_line py smp g) rows))
           = map (\<lambda>(smp, g). row_line py smp g) rows"
  using assms
proof (induction rows)
  case Nil
  then show ?case by simp
next
  case (Cons r rows)
  obtain smp g where r: "r = (smp, g)" by (cases r)
  from Cons.prems have "\<forall>x \<in> set (row_values (smp, g)). prints_back py x"
    by (simp add: r)
  then have "newline \<notin> set (row_body py smp g)"
    by (simp add: row_values_def row_body_def prints_back_def newline_def)
  from file_lines_line [OF this] Cons show ?case
    by (simp add: r row_line_body)
qed

lemma file_lines_dataset_text:
  assumes "\<forall>r \<in> set rows. \<forall>x \<in> set (row_values r). prints_back py x"
  shows "file_lines (dataset_text py rows) = header_line # map (\<lambda>(smp, g). row_line py smp g) rows"
proof -
  have "newline \<notin> set ''CH1_FREQ [Hz], CH1_AMPL [Vpp], CH2_FREQ [Hz], CH2_AMPL [Vpp], PHASE_DIFF [Deg], GAIN [dB]''"
    by (simp add: newline_def)
  from file_lines_line [OF this] file_lines_rows [OF assms] show ?thesis
    by (simp add: dataset_text_def header_line_def)
qed

lemma parse_lines_rows:
  assumes "\<forall>r \<in> set rows. \<forall>x \<in> set (row_values r). prints_back py x"
  shows "parse_lines py (map (\<lambda>(smp, g). row_line py smp g) rows)
           = (map (freq1 \<circ> fst) rows, map (phase_diff \<circ> fst) rows, map snd rows)"
  using assms
proof (induction rows)
  case Nil
  then show ?case by simp
next
  case (Cons r rows)
  obtain smp g where r: "r = (smp, g)" by (cases r)
  from Cons.prems have "\<forall>x \<in> set (row_values (smp, g)). prints_back py x"
    by (simp add: r)
  from parse_row_line [OF this] Cons show ?case
    by (simp add: r)
qed


lemma parse_line_Some:
  "parse_line py lin = Some (f, p, g) \<longleftrightarrow>
     (\<exists>a1 f2 a2. map (to_float py) (split_py '', '' (strip_newlines lin))
        = [Some f, Some a1, Some f2, Some a2, Some p, Some g])"
  unfolding parse_line_def
  by (simp split: list.split option.split)

lemma parse_line_fields:
  assumes "length (split_py '', '' (strip_newlines lin)) \<noteq> 6"
  shows "parse_line py lin = None"
proof (cases "parse_line py lin")
  case None
  then show ?thesis .
next
  case (Some r)
  then obtain f p g where "parse_line py lin = Some (f, p, g)"
    by (cases r) auto
  then obtain b c d where "map (to_float py) (split_py '', '' (strip_newlines lin))
        = [Some f, Some b, Some c, Some d, Some p, Some g]"
    by (auto simp: parse_line_Some)
  then have "length (map (to_float py) (split_py '', '' (strip_newlines lin))) = 6"
    by simp
  with assms show ?thesis by simp
qed

lemma parse_line_floats:
  assumes "s \<in> set (split_py '', '' (strip_newlines lin))" and "to_float py s = None"
  shows "parse_line py lin = None"
proof (cases "parse_line py lin")
  case None
  then show ?thesis .
next
  case (Some r)
  then obtain f p g where "parse_line py lin = Some (f, p, g)"
    by (cases r) auto
  then obtain b c d where "map (to_float py) (split_py '', '' (strip_newlines lin))
        = [Some f, Some b, Some c, Some d, Some p, Some g]"
    by (auto simp: parse_line_Some)
  then have "None \<notin> set (map (to_float py) (split_py '', '' (strip_newlines lin)))"
    by simp
  with assms show ?thesis by force
qed

lemma parse_lines_skip:
  "parse_line py lin = None \<Longrightarrow>
   parse_lines py (ls @ lin # ls') = parse_lines py (ls @ ls')"
  by (induction ls) simp_all

lemma parse_lines_filter:
  "parse_lines py ls = parse_lines py (filter (\<lambda>l. parse_line py l \<noteq> None) ls)"
  by (induction ls) (auto split: prod.splits option.splits)


text \<open>
  C8. A sweep that returns has written the header line and then one line for each
  accepted sample, six values separated by a comma and a space, the last of them the
  gain of the sample. Whenever the values of the rows print in a form that
  \<^verbatim>\<open>float\<close> reads back and that has no comma or newline in it, and \<^verbatim>\<open>float\<close> rejects the
  first word of the header, the reader of interactivePlot.py splits the file into these
  lines, skips the header, and recovers the frequencies, phases and gains of the rows in
  order; its figure, with the cutoff, is the one computed from the rows themselves.
  The reader keeps a line exactly when it splits at \<^verbatim>\<open>", "\<close> into six fields that
  \<^verbatim>\<open>float\<close> reads, all six of them, and keeps then the first, fifth and sixth value.
  Any other line is skipped without a trace, wherever it stands in the file: a line of
  fewer or more than six fields, and a line with a field that is no float, also in the
  three columns that the figure does not use.
\<close>

theorem dataset_round_trip:
  "(sweep_frequency py io start_freq end_freq points w0 = Some (Inr st)
      \<and> to_float py ''CH1_FREQ [Hz]'' = None
      \<and> fp st = dataset_text py rows
      \<and> (\<forall>r \<in> set rows. \<forall>x \<in> set (row_values r). prints_back py x) \<longrightarrow>
      (\<exists>rows'. fp st = dataset_text py rows' \<and> counter st = 1 + int (length rows')
            \<and> (\<forall>(smp, g) \<in> set rows'. gain smp = Inr g))
       \<and> file_lines (fp st) = header_line # map (\<lambda>(smp, g). row_line py smp g) rows
       \<and> parse_line py header_line = None
       \<and> parse_lines py (file_lines (fp st))
           = (map (freq1 \<circ> fst) rows, map (phase_diff \<circ> fst) rows, map snd rows)
       \<and> plot_bode py (fp st)
           = bode_figure (map (freq1 \<circ> fst) rows, map (phase_diff \<circ> fst) rows, map snd rows))
   \<and> (parse_line py lin = Some (f, p, g) \<longleftrightarrow>
        (\<exists>a1 f2 a2. map (to_float py) (split_py '', '' (strip_newlines lin))
           = [Some f, Some a1, Some f2, Some a2, Some p, Some g]))
   \<and> (length (split_py '', '' (strip_newlines lin)) \<noteq> 6 \<longrightarrow> parse_line py lin = None)
   \<and> ((\<exists>s \<in> set (split_py '', '' (strip_newlines lin)). to_float py s = None) \<longrightarrow>
        parse_line py lin = None)
   \<and> (parse_line py lin = None \<longrightarrow>
        parse_lines py (ls @ lin # ls') = parse_lines py (ls @ ls'))
   \<and> parse_lines py ls = parse_lines py (filter (\<lambda>l. parse_line py l \<noteq> None) ls)"
proof (intro conjI impI)
  assume a: "sweep_frequency py io start_freq end_freq points w0 = Some (Inr st)
      \<and> to_float py ''CH1_FREQ [Hz]'' = None
      \<and> fp st = dataset_text py rows
      \<and> (\<forall>r \<in> set rows. \<forall>x \<in> set (row_values r). prints_back py x)"
  then have returned: "sweep_frequency py io start_freq end_freq points w0 = Some (Inr st)"
    and rejected: "to_float py ''CH1_FREQ [Hz]'' = None"
    and stored: "fp st = dataset_text py rows"
    and vals: "\<forall>r \<in> set rows. \<forall>x \<in> set (row_values r). prints_back py x"
    by simp_all
  let ?step = "(end_freq - start_freq) / real_of_int (points - 1)"
  from returned obtain smp0 w1 where
    "sweep_loop py io end_freq ?step
       \<lparr>scope = w1, counter = 1, error_cnt = 0, curr_freq = start_freq,
        fp = header_line, stdout = []\<rparr> = Some (Inr st)"
    by (auto simp: sweep_frequency_def Let_def split: if_splits sum.splits)
  from sweep_loop_rows [OF this]
  show written: "\<exists>rows'. fp st = dataset_text py rows' \<and> counter st = 1 + int (length rows')
            \<and> (\<forall>(smp, g) \<in> set rows'. gain smp = Inr g)"
    by (simp add: dataset_text_def)
  show lines: "file_lines (fp st) = header_line # map (\<lambda>(smp, g). row_line py smp g) rows"
    unfolding stored by (rule file_lines_dataset_text [OF vals])
  show unread: "parse_line py header_line = None"
    by (rule parse_header_line [OF rejected])
  show parsed: "parse_lines py (file_lines (fp st))
           = (map (freq1 \<circ> fst) rows, map (phase_diff \<circ> fst) rows, map snd rows)"
    unfolding lines using unread parse_lines_rows [OF vals] by simp
  then show "plot_bode py (fp st)
           = bode_figure (map (freq1 \<circ> fst) rows, map (phase_diff \<circ> fst) rows, map snd rows)"
    by (simp add: plot_bode_def)
next
  show "parse_line py lin = Some (f, p, g) \<longleftrightarrow>
        (\<exists>a1 f2 a2. map (to_float py) (split_py '', '' (strip_newlines lin))
           = [Some f, Some a1, Some f2, Some a2, Some p, Some g])"
    by (rule parse_line_Some)
next
  assume "length (split_py '', '' (strip_newlines lin)) \<noteq> 6"
  then show "parse_line py lin = None"
    by (rule parse_line_fields)
next
  assume "\<exists>s \<in> set (split_py '', '' (strip_newlines lin)). to_float py s = None"
  then show "parse_line py lin = None"
    by (blast intro: parse_line_floats)
next
  assume "parse_line py lin = None"
  then show "parse_lines py (ls @ lin # ls') = parse_lines py (ls @ ls')"
    by (rule parse_lines_skip)
next
  show "parse_lines py ls = parse_lines py (filter (\<lambda>l. parse_line py l \<noteq> None) ls)"
    by (rule parse_lines_filter)
qed

theorem dataset_round_trip_witness:
  "sweep_frequency decimal_py replay 100 200 2 two_point_script
     = Some (Inr \<lparr>scope = [], counter = 3, error_cnt = 0, curr_freq = 300,
               fp = dataset_text decimal_py
                      [(\<lparr>freq1 = 100, ampl1 = 1, freq2 = 100, ampl2 = 10, phase_diff = 0\<rparr>, 20),
                       (\<lparr>freq1 = 200, ampl1 = 1, freq2 = 200, ampl2 = 1, phase_diff = 90\<rparr>, 0)],
               stdout = []\<rparr>)
   \<and> to_float decimal_py ''CH1_FREQ [Hz]'' = None
   \<and> list_all (prints_back decimal_py) [100, 1, 10, 0, 20, 200, 90]
   \<and> plot_bode decimal_py
        (dataset_text decimal_py
           [(\<lparr>freq1 = 100, ampl1 = 1, freq2 = 100, ampl2 = 10, phase_diff = 0\<rparr>, 20),
            (\<lparr>freq1 = 200, ampl1 = 1, freq2 = 200, ampl2 = 1, phase_diff = 90\<rparr>, 0)])
     = Inr \<lparr>freq_arr = [100, 200], phase_arr = [0, 90], gain_arr = [20, 0],
            cutoff_index = 0, gain_hline = 20, phase_hline = 0\<rparr>
   \<and> length (split_py '', '' (strip_newlines (''4, 1, 4, 1, 10, 3, 9'' @ [newline]))) = 7
   \<and> parse_line decimal_py (''4, 1, 4, 1, 10, 3, 9'' @ [newline]) = None
   \<and> split_py '', '' (strip_newlines (''4, x, y, z, 10, 3'' @ [newline]))
       = [''4'', ''x'', ''y'', ''z'', ''10'', ''3'']
   \<and> to_float decimal_py ''x'' = None
   \<and> parse_line decimal_py (''4, x, y, z, 10, 3'' @ [newline]) = None
   \<and> parse_lines decimal_py
        [''4, 1, 4, 1, 10, 20'' @ [newline], ''4, x, y, z, 10, 3'' @ [newline],
         ''5, 1, 5, 1, 90, 0'']
     = ([4, 5], [10, 90], [20, 0])"
proof -
  let ?rows = "[(\<lparr>freq1 = 100, ampl1 = 1, freq2 = 100, ampl2 = 10, phase_diff = 0\<rparr>, 20 :: real),
                (\<lparr>freq1 = 200, ampl1 = 1, freq2 = 200, ampl2 = 1, phase_diff = 90\<rparr>, 0)]"
  let ?st = "\<lparr>scope = [] :: string list, counter = 3, error_cnt = 0, curr_freq = 300,
              fp = dataset_text decimal_py ?rows, stdout = []\<rparr>"
  have run: "sweep_frequency decimal_py replay 100 200 2 two_point_script = Some (Inr ?st)"
    by (simp add: two_point_script_def dataset_text_def run_defs)
  have unread: "to_float decimal_py ''CH1_FREQ [Hz]'' = None"
    by (simp add: decimal_defs)
  have printable: "list_all (prints_back decimal_py) [100, 1, 10, 0, 20, 200, 90]"
    by (simp add: prints_back_def newline_def decimal_defs)
  then have vals: "\<forall>r \<in> set ?rows. \<forall>x \<in> set (row_values r). prints_back decimal_py x"
    by (simp add: row_values_def)
  have written: "fp ?st = dataset_text decimal_py ?rows"
    by simp
  note round_trip = dataset_round_trip
    [where py = decimal_py and io = replay and start_freq = 100 and end_freq = 200
       and points = 2 and ?w0.0 = two_point_script and st = ?st and rows = ?rows,
     THEN conjunct1, rule_format]
  from round_trip run unread written vals
  have "plot_bode decimal_py (fp ?st)
      = bode_figure (map (freq1 \<circ> fst) ?rows, map (phase_diff \<circ> fst) ?rows, map snd ?rows)"
    by blast
  also have "\<dots> = Inr \<lparr>freq_arr = [100, 200], phase_arr = [0, 90], gain_arr = [20, 0],
            cutoff_index = 0, gain_hline = 20, phase_hline = 0\<rparr>"
    by (simp add: bode_figure_def find_cutoff_def max_py_def min_key_py_def getitem_def)
  finally have figure: "plot_bode decimal_py (dataset_text decimal_py ?rows)
      = Inr \<lparr>freq_arr = [100, 200], phase_arr = [0, 90], gain_arr = [20, 0],
            cutoff_index = 0, gain_hline = 20, phase_hline = 0\<rparr>"
    by simp
  let ?long = "''4, 1, 4, 1, 10, 3, 9'' @ [newline]"
  let ?junk = "''4, x, y, z, 10, 3'' @ [newline]"
  have seven: "length (split_py '', '' (strip_newlines ?long)) = 7"
    by (simp add: reader_defs)
  have fields: "split_py '', '' (strip_newlines ?junk) = [''4'', ''x'', ''y'', ''z'', ''10'', ''3'']"
    by (simp add: reader_defs)
  have letter: "to_float decimal_py ''x'' = None"
    by (simp add: decimal_defs)
  have long: "parse_line decimal_py ?long = None"
    using dataset_round_trip [where py = decimal_py and lin = ?long,
        THEN conjunct2, THEN conjunct2, THEN conjunct1] seven
    by simp
  have junk: "parse_line decimal_py ?junk = None"
    using dataset_round_trip [where py = decimal_py and lin = ?junk,
        THEN conjunct2, THEN conjunct2, THEN conjunct2, THEN conjunct1] fields letter
    by simp
  have "parse_lines decimal_py [''4, 1, 4, 1, 10, 20'' @ [newline], ?junk, ''5, 1, 5, 1, 90, 0'']
      = parse_lines decimal_py [''4, 1, 4, 1, 10, 20'' @ [newline], ''5, 1, 5, 1, 90, 0'']"
    using dataset_round_trip [where py = decimal_py and lin = ?junk
        and ls = "[''4, 1, 4, 1, 10, 20'' @ [newline]]" and ls' = "[''5, 1, 5, 1, 90, 0'']",
        THEN conjunct2, THEN conjunct2, THEN conjunct2, THEN conjunct2, THEN conjunct1] junk
    by simp
  also have "\<dots> = ([4, 5], [10, 90], [20, 0])"
    by (simp add: reader_defs digits_of.simps)
  finally have skipped:
    "parse_lines decimal_py [''4, 1, 4, 1, 10, 20'' @ [newline], ?junk, ''5, 1, 5, 1, 90, 0'']
      = ([4, 5], [10, 90], [20, 0])" .
  from run unread printable figure seven long fields letter junk skipped show ?thesis
    by blast
qed

end
